theory Spec2Isabelle
  imports Complex_Main "HOL-Library.AList"
begin

section \<open>Python values and exceptions\<close>

text \<open>
  Exceptions of the Python sources are values: a function that can raise returns
  \<open>exn + 'a\<close>, with \<open>Inl\<close> carrying the exception. \<open>BaseExc\<close> stands for an
  exception that derives from \<open>BaseException\<close> but not from \<open>Exception\<close>
  (\<open>KeyboardInterrupt\<close>, \<open>SystemExit\<close>), which \<open>except Exception\<close> does not catch.
  \<open>UnsupportedSchemaType\<close> and \<open>InvalidContextArgument\<close> are the error kinds
  the specification names; no source function constructs them.
\<close>

datatype exn =
    KeyError string
  | ValueError string
  | TypeError string
  | AttributeError string
  | OtherException string
  | BaseExc string
  | UnsupportedSchemaType "string list"
  | InvalidContextArgument string

text \<open>
  What a library outside these sources raises: the name of the exception's class and its
  message. \<open>library_exn\<close> is that exception as the sources' callers see it. The two
  error kinds that only the specification names are classes of no library, so no
  library raises them.
\<close>

datatype raised = Raised string string

definition library_exn :: "raised \<Rightarrow> exn" where
  "library_exn r =
     (case r of Raised cls msg \<Rightarrow>
        if cls = ''KeyError'' then KeyError msg
        else if cls = ''ValueError'' then ValueError msg
        else if cls = ''TypeError'' then TypeError msg
        else if cls = ''AttributeError'' then AttributeError msg
        else if cls \<in> set [''KeyboardInterrupt'', ''SystemExit'', ''GeneratorExit'']
        then BaseExc (cls @ '': '' @ msg)
        else OtherException (cls @ '': '' @ msg))"

text \<open>
  \<open>str.strip()\<close> removes leading and trailing white space. Strings are lists of
  characters with code points below 256; the white-space characters of Python's \<open>str\<close>
  in that range are 9..13, 28..32, 0x85 and 0xA0.
\<close>

definition py_isspace :: "char \<Rightarrow> bool" where
  "py_isspace c = ((of_char c :: nat) \<in> {9, 10, 11, 12, 13, 28, 29, 30, 31, 32, 133, 160})"

definition lstrip :: "string \<Rightarrow> string" where
  "lstrip s = dropWhile py_isspace s"

definition rstrip :: "string \<Rightarrow> string" where
  "rstrip s = rev (dropWhile py_isspace (rev s))"

definition strip :: "string \<Rightarrow> string" where
  "strip s = rstrip (lstrip s)"

section \<open>The workspace command actions (cmd_manager/actions)\<close>

text \<open>
  \<open>BaseCmdResponse\<close> and \<open>BaseResponse\<close> carry an output and a return code. A
  workspace answers a command and changes its state; the model keeps the commands it
  received in \<open>ws_history\<close> and takes its answers from \<open>ws_respond\<close>.
\<close>

record base_cmd_response =
  cmd_output :: string
  cmd_return_code :: int

record base_response =
  resp_output :: string
  resp_return_code :: int

record workspace =
  ws_history :: "string list"
  ws_respond :: "string list \<Rightarrow> string \<Rightarrow> base_cmd_response"

definition communicate :: "workspace \<Rightarrow> string \<Rightarrow> base_cmd_response \<times> workspace" where
  "communicate ws cmd =
     (ws_respond ws (ws_history ws) cmd, ws\<lparr>ws_history := ws_history ws @ [cmd]\<rparr>)"

text \<open>
  The state of a \<open>BaseAction\<close>: the attributes set by \<open>__init__\<close> and the class
  attribute \<open>workspace\<close>, which is \<open>None\<close> until \<open>set_workspace\<close> is called.
\<close>

record base_action =
  workspace_id :: string
  command :: string
  workspace :: "workspace option"

definition BaseAction_init :: base_action where
  "BaseAction_init = \<lparr>workspace_id = '''', command = '''', workspace = None\<rparr>"

record create_file_request =
  req_workspace_id :: string
  file_name :: "string option"

text \<open>\<open>BaseAction._setup\<close>: stores the workspace id, then raises when no workspace is set.\<close>

definition setup_action :: "base_action \<Rightarrow> string \<Rightarrow> (exn + unit) \<times> base_action" where
  "setup_action self wid =
     (let self' = self\<lparr>workspace_id := wid\<rparr> in
      if workspace self' = None then (Inl (ValueError ''workspace_factory is not set''), self')
      else (Inr (), self'))"

definition validate_file_name :: "string option \<Rightarrow> bool" where
  "validate_file_name fn =
     (case fn of None \<Rightarrow> False | Some s \<Rightarrow> if strip s = '''' then False else True)"

text \<open>
  \<open>CreateFileCmd.execute\<close>. \<open>process_output\<close> is imported from
  \<open>local_workspace.commons.utils\<close> and is a parameter here.
\<close>

definition CreateFileCmd_execute ::
  "(string \<Rightarrow> int \<Rightarrow> string \<times> int) \<Rightarrow> base_action \<Rightarrow> create_file_request
     \<Rightarrow> (exn + base_response) \<times> base_action" where
  "CreateFileCmd_execute process_output self request_data =
     (case setup_action self (req_workspace_id request_data) of
        (Inl e, self1) \<Rightarrow> (Inl e, self1)
      | (Inr _, self1) \<Rightarrow>
          if \<not> validate_file_name (file_name request_data) then
            (Inr \<lparr>resp_output = ''Exception: file-name can not be empty'', resp_return_code = 1\<rparr>, self1)
          else
            (case workspace self1 of
               None \<Rightarrow> (Inl (ValueError ''Workspace is not initialized.''), self1)
             | Some ws \<Rightarrow>
                 (let (cmd_response, ws') =
                        communicate ws (''create '' @ the (file_name request_data));
                      (out, rc) = process_output (cmd_output cmd_response)
                                    (cmd_return_code cmd_response)
                  in (Inr \<lparr>resp_output = out, resp_return_code = rc\<rparr>, self1\<lparr>workspace := Some ws'\<rparr>))))"

section \<open>The repository map action (codemap/actions/get_repomap.py)\<close>

text \<open>
  \<open>GetRepoMap.execute\<close> returns a dictionary; its values are strings or \<open>None\<close>.
  What it calls is outside the repository's sources and is a parameter here:
  \<open>Path(...).resolve()\<close> and \<open>Path.exists()\<close> of the standard library,
  \<open>get_files_excluding_gitignore\<close>, \<open>Path.relative_to\<close> and
  \<open>RepoMap.get_repo_map\<close>. Each of them can raise; \<open>Path.exists()\<close> raises the
  \<open>OSError\<close> of the underlying \<open>stat\<close> where the error is not one it takes for
  "does not exist" (a name that is too long, for one). An exception of a class that
  \<open>exn\<close> does not name is an \<open>OtherException\<close>.
\<close>

datatype rval = RNone | RStr string

type_synonym rdict = "(string \<times> rval) list"

record get_repo_map_request =
  code_directory :: string
  files_of_interest :: "string list"
  primary_file_paths :: "string list"
  mentioned_idents :: "string list"

record repo_env =
  fs_resolve :: "string \<Rightarrow> exn + string"
  fs_exists :: "string \<Rightarrow> exn + bool"
  get_files_excluding_gitignore :: "string \<Rightarrow> exn + string list"
  relative_to :: "string \<Rightarrow> string \<Rightarrow> exn + string"
  get_repo_map ::
    "string \<Rightarrow> string list \<Rightarrow> string list \<Rightarrow> string list \<Rightarrow> string list
       \<Rightarrow> exn + string option"

definition endswith :: "string \<Rightarrow> string \<Rightarrow> bool" where
  "endswith s suf = (length suf \<le> length s \<and> drop (length s - length suf) s = suf)"

text \<open>\<open>str(e)\<close>: the message of the exception; a \<open>KeyError\<close> prints its key quoted.\<close>

fun exn_str :: "exn \<Rightarrow> string" where
  "exn_str (KeyError k) = [CHR 0x27] @ k @ [CHR 0x27]"
| "exn_str (ValueError m) = m"
| "exn_str (TypeError m) = m"
| "exn_str (AttributeError m) = m"
| "exn_str (OtherException m) = m"
| "exn_str (BaseExc m) = m"
| "exn_str (UnsupportedSchemaType p) = concat p"
| "exn_str (InvalidContextArgument m) = m"

text \<open>What \<open>except Exception\<close> catches.\<close>

fun is_Exception :: "exn \<Rightarrow> bool" where
  "is_Exception (BaseExc m) = False"
| "is_Exception e = True"

text \<open>The list comprehension of the \<open>try\<close> block: the first \<open>relative_to\<close> that raises ends it.\<close>

fun relative_file_paths :: "repo_env \<Rightarrow> string \<Rightarrow> string list \<Rightarrow> exn + string list" where
  "relative_file_paths env repo_root [] = Inr []"
| "relative_file_paths env repo_root (file # files) =
     (if endswith file ''.py'' then
        (case relative_to env file repo_root of
           Inl e \<Rightarrow> Inl e
         | Inr r \<Rightarrow>
             (case relative_file_paths env repo_root files of
                Inl e \<Rightarrow> Inl e
              | Inr rs \<Rightarrow> Inr (r # rs)))
      else relative_file_paths env repo_root files)"

text \<open>The body of the \<open>try\<close> block, up to the generated map.\<close>

definition generate_map ::
  "repo_env \<Rightarrow> string \<Rightarrow> get_repo_map_request \<Rightarrow> exn + string option" where
  "generate_map env repo_root request_data =
     (case get_files_excluding_gitignore env repo_root of
        Inl e \<Rightarrow> Inl e
      | Inr all_repository_files \<Rightarrow>
          (case relative_file_paths env repo_root all_repository_files of
             Inl e \<Rightarrow> Inl e
           | Inr rel \<Rightarrow>
               get_repo_map env repo_root (primary_file_paths request_data) rel
                 (files_of_interest request_data) (mentioned_idents request_data)))"

definition opt_rval :: "string option \<Rightarrow> rval" where
  "opt_rval m = (case m of None \<Rightarrow> RNone | Some s \<Rightarrow> RStr s)"

definition GetRepoMap_execute :: "repo_env \<Rightarrow> get_repo_map_request \<Rightarrow> exn + rdict" where
  "GetRepoMap_execute env request_data =
     (case fs_resolve env (code_directory request_data) of
        Inl e \<Rightarrow> Inl e
      | Inr repo_root \<Rightarrow>
          (case fs_exists env repo_root of
             Inl e \<Rightarrow> Inl e
           | Inr False \<Rightarrow>
               Inr [(''error_message'',
                     RStr (''Repository root path '' @ [CHR 0x27] @ repo_root @ [CHR 0x27]
                           @ '' does not exist or is inaccessible.''))]
           | Inr True \<Rightarrow>
               (case generate_map env repo_root request_data of
                  Inr generated_map \<Rightarrow>
                    Inr [(''status'', RStr ''success''),
                         (''repository_map'', opt_rval generated_map),
                         (''error_message'', RNone)]
                | Inl e \<Rightarrow>
                    if is_Exception e then
                      Inr [(''repository_map'', RNone),
                           (''error_message'',
                            RStr (''An error occurred while generating the repository map: ''
                                  @ exn_str e
                                  @ ''. Please ensure all paths are correct and you have necessary permissions.''))]
                    else Inl e)))"

text \<open>
  An environment for concrete runs: \<open>resolve\<close> raises \<open>ValueError\<close> on a path with
  an embedded NUL character, as CPython's \<open>os.lstat\<close> under \<open>Path.resolve\<close> does,
  and is the identity otherwise; \<open>exists\<close> raises \<open>OSError\<close> on a path of more
  than 255 characters, as it does up to Python 3.12 where the file system limits a name
  to 255; only \<open>/repo\<close> exists, with two files. In the second environment the
  generation is interrupted from the keyboard, in the third the files cannot be listed.
\<close>

definition sample_env :: repo_env where
  "sample_env =
     \<lparr>fs_resolve = (\<lambda>p. if CHR 0x00 \<in> set p then Inl (ValueError ''embedded null byte'')
                          else Inr p),
      fs_exists = (\<lambda>p. if 255 < length p
                         then Inl (OtherException ''[Errno 36] File name too long'')
                         else Inr (p = ''/repo'')),
      get_files_excluding_gitignore = (\<lambda>p. Inr [''/repo/a.py'', ''/repo/b.txt'']),
      relative_to = (\<lambda>f r. Inr (drop (length r + 1) f)),
      get_repo_map = (\<lambda>r chat other fnames idents. Inr (Some (concat other)))\<rparr>"

definition denied_env :: repo_env where
  "denied_env =
     sample_env\<lparr>get_files_excluding_gitignore :=
       (\<lambda>p. Inl (OtherException ''[Errno 13] Permission denied''))\<rparr>"

definition interrupted_env :: repo_env where
  "interrupted_env =
     sample_env\<lparr>get_repo_map :=
       (\<lambda>r chat other fnames idents. Inl (BaseExc ''KeyboardInterrupt''))\<rparr>"

section \<open>Strings of the runtime tools (str methods and the inflection library)\<close>

text \<open>
  Tool names, action names and docstrings are ASCII here, and a name with a character
  beyond ASCII is outside of what follows: \<open>upper\<close>, \<open>lower\<close> and \<open>title\<close>
  change the 26 letters only, and the patterns of the inflection library are read over
  ASCII.
\<close>

definition ascii_lowercase :: string where
  "ascii_lowercase = ''abcdefghijklmnopqrstuvwxyz''"

definition ascii_uppercase :: string where
  "ascii_uppercase = ''ABCDEFGHIJKLMNOPQRSTUVWXYZ''"

definition is_lower :: "char \<Rightarrow> bool" where
  "is_lower c = (c \<in> set ascii_lowercase)"

definition is_upper :: "char \<Rightarrow> bool" where
  "is_upper c = (c \<in> set ascii_uppercase)"

definition is_digit :: "char \<Rightarrow> bool" where
  "is_digit c = (c \<in> set ''0123456789'')"

definition upper_char :: "char \<Rightarrow> char" where
  "upper_char c =
     (case map_of (zip ascii_lowercase ascii_uppercase) c of Some u \<Rightarrow> u | None \<Rightarrow> c)"

definition lower_char :: "char \<Rightarrow> char" where
  "lower_char c =
     (case map_of (zip ascii_uppercase ascii_lowercase) c of Some l \<Rightarrow> l | None \<Rightarrow> c)"

definition upper :: "string \<Rightarrow> string" where
  "upper s = map upper_char s"

definition lower :: "string \<Rightarrow> string" where
  "lower s = map lower_char s"

text \<open>\<open>str.title()\<close>: a letter after a letter is lowered, any other letter is raised.\<close>

fun title_from :: "bool \<Rightarrow> string \<Rightarrow> string" where
  "title_from previous_is_cased [] = []"
| "title_from previous_is_cased (c # cs) =
     (if is_lower c then
        (if \<not> previous_is_cased then upper_char c else c) # title_from True cs
      else if is_upper c then
        (if previous_is_cased then lower_char c else c) # title_from True cs
      else c # title_from False cs)"

definition title :: "string \<Rightarrow> string" where
  "title s = title_from False s"

text \<open>\<open>s.split(sep)\<close> for a separator of one character: never the empty list.\<close>

fun split_acc :: "char \<Rightarrow> string \<Rightarrow> string \<Rightarrow> string list" where
  "split_acc sep cur [] = [rev cur]"
| "split_acc sep cur (c # cs) =
     (if c = sep then rev cur # split_acc sep [] cs else split_acc sep (c # cur) cs)"

definition split :: "string \<Rightarrow> char \<Rightarrow> string list" where
  "split s sep = split_acc sep [] s"

definition leading_underscore :: "string \<Rightarrow> bool" where
  "leading_underscore n = (case n of [] \<Rightarrow> False | c # cs \<Rightarrow> c = CHR ''_'')"

definition startswith :: "string \<Rightarrow> string \<Rightarrow> bool" where
  "startswith s pre = (take (length pre) s = pre)"

text \<open>\<open>sub in s\<close>.\<close>

fun contains :: "string \<Rightarrow> string \<Rightarrow> bool" where
  "contains sub [] = (sub = [])"
| "contains sub (c # cs) = (startswith (c # cs) sub \<or> contains sub cs)"

text \<open>
  \<open>s.replace(old, new)\<close>, left to right without overlaps. Every call in the sources
  has a non-empty \<open>old\<close>.
\<close>

fun replace :: "string \<Rightarrow> string \<Rightarrow> string \<Rightarrow> string" where
  "replace old new [] = []"
| "replace old new (c # cs) =
     (if old \<noteq> [] \<and> startswith (c # cs) old
      then new @ replace old new (drop (length old - 1) cs)
      else c # replace old new cs)"

definition join :: "string \<Rightarrow> string list \<Rightarrow> string" where
  "join sep xs = (case xs of [] \<Rightarrow> [] | y # ys \<Rightarrow> y @ concat (map (\<lambda>z. sep @ z) ys))"

text \<open>
  \<open>inflection.camelize(s)\<close> is \<open>re.sub(r"(?:^|_)(.)", lambda m: m.group(1).upper(), s)\<close>:
  the first character is raised, and an underscore followed by a character is replaced
  by that character raised. The dot does not match a line feed.
\<close>

fun camelize_rest :: "string \<Rightarrow> string" where
  "camelize_rest (u # c # cs) =
     (if u = CHR ''_'' \<and> c \<noteq> CHR 0x0A then upper_char c # camelize_rest cs
      else u # camelize_rest (c # cs))"
| "camelize_rest cs = cs"

definition camelize :: "string \<Rightarrow> string" where
  "camelize s =
     (case s of
        [] \<Rightarrow> []
      | c # cs \<Rightarrow> if c \<noteq> CHR 0x0A then upper_char c # camelize_rest cs
                  else camelize_rest (c # cs))"

text \<open>
  \<open>inflection.underscore(word)\<close>: \<open>re.sub(r"([A-Z]+)([A-Z][a-z])", r"\1_\2", word)\<close>,
  then \<open>re.sub(r"([a-z\d])([A-Z])", r"\1_\2", word)\<close>, then \<open>-\<close> becomes \<open>_\<close>, then
  \<open>lower()\<close>. The first pattern matches where a run of capitals of length two or
  more is followed by a small letter, and puts the underscore before the run's last
  capital.
\<close>

fun underscore1 :: "string \<Rightarrow> string" where
  "underscore1 (a # b # c # cs) =
     (if is_upper a \<and> is_upper b \<and> is_lower c
      then a # CHR ''_'' # b # c # underscore1 cs
      else a # underscore1 (b # c # cs))"
| "underscore1 cs = cs"

fun underscore2 :: "string \<Rightarrow> string" where
  "underscore2 (a # b # cs) =
     (if (is_lower a \<or> is_digit a) \<and> is_upper b
      then a # CHR ''_'' # b # underscore2 cs
      else a # underscore2 (b # cs))"
| "underscore2 cs = cs"

definition underscore :: "string \<Rightarrow> string" where
  "underscore word = lower (replace ''-'' ''_'' (underscore2 (underscore1 word)))"

section \<open>Callables, annotations and argument specifications (tools/base/runtime.py)\<close>

text \<open>
  Python values, as far as defaults, requests and responses need them. \<open>PEllipsis\<close>
  is \<open>...\<close>, which a pydantic \<open>Field\<close> reads as "no default: required".
  \<open>PWorkspace r\<close> is a workspace object whose \<open>shells.recent\<close> is \<open>r\<close>;
  \<open>PModel n kvs\<close> is an instance of the pydantic model named \<open>n\<close>.
\<close>

datatype pyval =
    PNone
  | PEllipsis
  | PBool bool
  | PInt int
  | PFloat real
  | PStr string
  | PList "pyval list"
  | PDict "(string \<times> pyval) list"
  | PShell nat
  | PWorkspace pyval
  | PModel string "(string \<times> pyval) list"

text \<open>
  A type object that stands in an annotation: a class, with its identity, its name and
  whether it is a subclass of pydantic's \<open>BaseModel\<close>, or an alias of the typing
  module such as \<open>List[int]\<close>, which is not a class.
\<close>

datatype pytype =
    PyClass (cls_id: nat) (cls_name: string) (is_base_model: bool)
  | PyAlias string

text \<open>
  The metadata of \<open>Annotated[T, ...]\<close>: an \<open>ArgSpec(description, default)\<close> or any
  other value. An annotation is the class \<open>Shell\<close>, an \<open>Annotated\<close> alias or a
  plain type.
\<close>

datatype annotspec = ArgSpec string pyval | Meta pyval

datatype annotation =
    Shell
  | Annotated pytype "annotspec list"
  | Raw pytype

datatype param_kind =
    POSITIONAL_ONLY | POSITIONAL_OR_KEYWORD | VAR_POSITIONAL | KEYWORD_ONLY | VAR_KEYWORD

record param =
  p_name :: string
  p_kind :: param_kind
  p_annotation :: "annotation option"
  p_default :: "pyval option"

text \<open>
  A callable: its \<open>__name__\<close>, its \<open>__doc__\<close>, its parameters in order, its return
  annotation, and \<open>c_call\<close>, the outcome of \<open>f(**kwargs)\<close>.
\<close>

record callable =
  c_name :: string
  c_doc :: "string option"
  c_params :: "param list"
  c_return :: "annotation option"
  c_call :: "(string \<times> pyval) list \<Rightarrow> exn + pyval"

text \<open>
  \<open>inspect.getfullargspec\<close>, for the three components the sources read.
  \<open>annotations\<close> is a dictionary in insertion order: \<open>return\<close> first when the
  callable has a return annotation, then every annotated parameter. \<open>defaults\<close> are
  the defaults of the positional parameters, \<open>None\<close> when there is none.
\<close>

record full_arg_spec =
  args :: "string list"
  defaults :: "pyval list option"
  annotations :: "(string \<times> annotation) list"

definition is_positional :: "param \<Rightarrow> bool" where
  "is_positional p = (p_kind p = POSITIONAL_ONLY \<or> p_kind p = POSITIONAL_OR_KEYWORD)"

fun param_annotations ::
  "param list \<Rightarrow> (string \<times> annotation) list \<Rightarrow> (string \<times> annotation) list" where
  "param_annotations [] d = d"
| "param_annotations (p # ps) d =
     param_annotations ps
       (case p_annotation p of None \<Rightarrow> d | Some a \<Rightarrow> AList.update (p_name p) a d)"

definition getfullargspec :: "callable \<Rightarrow> full_arg_spec" where
  "getfullargspec f =
     (let ds = List.map_filter p_default (filter is_positional (c_params f)) in
      \<lparr>args = map p_name (filter (\<lambda>p. p_kind p = POSITIONAL_ONLY) (c_params f))
              @ map p_name (filter (\<lambda>p. p_kind p = POSITIONAL_OR_KEYWORD) (c_params f)),
       defaults = (if ds = [] then None else Some ds),
       annotations =
         param_annotations (c_params f)
           (case c_return f of None \<Rightarrow> [] | Some r \<Rightarrow> [(''return'', r)])\<rparr>)"

text \<open>
  \<open>issubclass(annotation, BaseModel)\<close>: \<open>TypeError\<close> when the annotation is not a
  class. \<open>Shell\<close> is a class and not a model.
\<close>

definition issubclass_BaseModel :: "annotation \<Rightarrow> exn + bool" where
  "issubclass_BaseModel a =
     (case a of
        Shell \<Rightarrow> Inr False
      | Raw (PyClass i n b) \<Rightarrow> Inr b
      | _ \<Rightarrow> Inl (TypeError ''issubclass() arg 1 must be a class''))"

definition is_simple_action :: "full_arg_spec \<Rightarrow> exn + bool" where
  "is_simple_action argspec =
     (if ''request_data'' \<notin> set (args argspec) \<and> ''metadata'' \<notin> set (args argspec)
      then Inr False
      else
        (case map_of (annotations argspec) ''request_data'' of
           None \<Rightarrow> Inl (KeyError ''request_data'')
         | Some rq \<Rightarrow>
             (case issubclass_BaseModel rq of
                Inl e \<Rightarrow> Inl e
              | Inr False \<Rightarrow>
                  Inl (ValueError ''`request_data` needs to be a `pydantic.BaseModel` object'')
              | Inr True \<Rightarrow>
                  (case map_of (annotations argspec) ''return'' of
                     None \<Rightarrow> Inl (KeyError ''return'')
                   | Some rt \<Rightarrow>
                       (case issubclass_BaseModel rt of
                          Inl e \<Rightarrow> Inl e
                        | Inr False \<Rightarrow>
                            Inl (ValueError ''Return type needs to be a `pydantic.BaseModel` object'')
                        | Inr True \<Rightarrow> Inr True)))))"

text \<open>
  \<open>_parse_docstring\<close>. \<open>param, description = ....split(":")\<close> raises
  \<open>ValueError\<close> unless the split has exactly two parts; a docstring that is
  \<open>None\<close> has no \<open>lstrip\<close>.
\<close>

definition unpack2 :: "string list \<Rightarrow> exn + (string \<times> string)" where
  "unpack2 parts =
     (case parts of
        [a, b] \<Rightarrow> Inr (a, b)
      | [] \<Rightarrow> Inl (ValueError ''not enough values to unpack (expected 2, got 0)'')
      | [a] \<Rightarrow> Inl (ValueError ''not enough values to unpack (expected 2, got 1)'')
      | _ \<Rightarrow> Inl (ValueError ''too many values to unpack (expected 2)''))"

fun parse_descriptions ::
  "string list \<Rightarrow> (string \<times> string) list \<Rightarrow> (string \<times> string) option
     \<Rightarrow> exn + ((string \<times> string) list \<times> (string \<times> string) option)" where
  "parse_descriptions [] params returns = Inr (params, returns)"
| "parse_descriptions (description # descriptions) params returns =
     (if description = [] then parse_descriptions descriptions params returns
      else
        (case (if contains '':param'' description
               then (case unpack2 (split (replace '':param '' [] description) (CHR '':'')) of
                       Inl e \<Rightarrow> Inl e
                     | Inr (param, d) \<Rightarrow>
                         Inr (AList.update (rstrip (lstrip param)) (rstrip (lstrip d)) params, d))
               else Inr (params, description)) of
           Inl e \<Rightarrow> Inl e
         | Inr (params1, description1) \<Rightarrow>
             (case (if contains '':return'' description1
                    then (case unpack2 (split (replace '':return '' [] description1) (CHR '':'')) of
                            Inl e \<Rightarrow> Inl e
                          | Inr (param, d) \<Rightarrow> Inr (Some (strip (lstrip param), rstrip (lstrip d))))
                    else Inr returns) of
                Inl e \<Rightarrow> Inl e
              | Inr returns1 \<Rightarrow> parse_descriptions descriptions params1 returns1)))"

definition parse_docstring ::
  "string option
     \<Rightarrow> exn + (string \<times> (string \<times> string) list \<times> (string \<times> string) option)" where
  "parse_docstring docstr =
     (case docstr of
        None \<Rightarrow> Inl (AttributeError ''lstrip'')
      | Some d \<Rightarrow>
          (case split (rstrip (lstrip d)) (CHR 0x0A) of
             [] \<Rightarrow> Inl (ValueError ''not enough values to unpack (expected at least 1, got 0)'')
           | header # descriptions \<Rightarrow>
               (case parse_descriptions descriptions [] None of
                  Inl e \<Rightarrow> Inl e
                | Inr (params, returns) \<Rightarrow> Inr (header, params, returns))))"

text \<open>\<open>_parse_raw_type\<close>: the type as it is, and the argument's name as a title.\<close>

definition parse_raw_type :: "string \<Rightarrow> pytype \<Rightarrow> pytype \<times> string" where
  "parse_raw_type argument annotation = (annotation, title (join '' '' (split argument (CHR ''_''))))"

text \<open>
  \<open>_parse_annotated_type\<close>, on the arguments of the \<open>Annotated\<close> alias. An
  \<open>ArgSpec\<close> that stands as a default value is the instance of that pydantic model.
  The message of the error leaves the annotation's text out.
\<close>

definition annotspec_value :: "annotspec \<Rightarrow> pyval" where
  "annotspec_value a =
     (case a of
        Meta v \<Rightarrow> v
      | ArgSpec d v \<Rightarrow> PModel ''ArgSpec'' [(''description'', PStr d), (''default'', v)])"

definition parse_annotated_type ::
  "string \<Rightarrow> pytype \<Rightarrow> annotspec list \<Rightarrow> exn + (pytype \<times> string \<times> pyval)" where
  "parse_annotated_type argument annottype annotspec =
     (case annotspec of
        [ArgSpec description dflt] \<Rightarrow> Inr (annottype, description, dflt)
      | [Meta (PStr description)] \<Rightarrow> Inr (annottype, description, PNone)
      | [Meta (PStr description), dflt] \<Rightarrow>
          Inr (annottype, description, annotspec_value dflt)
      | _ \<Rightarrow> Inl (ValueError (''Invalid type annotation for argument '' @ argument)))"

text \<open>
  A pydantic \<open>Field(...)\<close>, the namespace handed to \<open>type(name, (BaseModel,), ns)\<close>
  and the model class made from it. The namespace starts as
  \<open>{"__annotations__": {}}\<close>; a field stored under that very key replaces the
  dictionary, and the item assignment that follows raises \<open>TypeError\<close>.
\<close>

record field_info =
  fi_default :: pyval
  fi_description :: "string option"
  fi_title :: "string option"

definition is_required :: "field_info \<Rightarrow> bool" where
  "is_required fi = (fi_default fi = PEllipsis)"

record namespace =
  ns_fields :: "(string \<times> field_info) list"
  ns_annotations :: "(string \<times> pytype) list"

definition empty_namespace :: namespace where
  "empty_namespace = \<lparr>ns_fields = [], ns_annotations = []\<rparr>"

definition ns_set :: "namespace \<Rightarrow> string \<Rightarrow> field_info \<Rightarrow> pytype \<Rightarrow> exn + namespace" where
  "ns_set ns arg fi annottype =
     (if arg = ''__annotations__''
      then Inl (TypeError ''FieldInfo object does not support item assignment'')
      else Inr \<lparr>ns_fields = AList.update arg fi (ns_fields ns),
                ns_annotations = AList.update arg annottype (ns_annotations ns)\<rparr>)"

record model =
  m_name :: string
  m_fields :: "(string \<times> field_info) list"
  m_annotations :: "(string \<times> pytype) list"

text \<open>
  pydantic is outside the sources, so what it does is a parameter: whether
  \<open>type(name, (BaseModel,), ns)\<close> raises when it creates a model class, what
  \<open>Model(**kwargs)\<close> returns or raises when it validates, and what
  \<open>request.model_dump()\<close> returns. A model class is the class pydantic made from a
  name and a namespace, and the record \<open>model\<close> keeps these two arguments: its
  \<open>m_fields\<close> are the field definitions the class was made from.
\<close>

record pydantic =
  pd_new_class :: "string \<Rightarrow> namespace \<Rightarrow> raised option"
  pd_construct :: "model \<Rightarrow> (string \<times> pyval) list \<Rightarrow> raised + pyval"
  pd_model_dump :: "pyval \<Rightarrow> raised + (string \<times> pyval) list"

definition create_type :: "pydantic \<Rightarrow> string \<Rightarrow> namespace \<Rightarrow> exn + model" where
  "create_type lib name ns =
     (case pd_new_class lib name ns of
        Some r \<Rightarrow> Inl (library_exn r)
      | None \<Rightarrow>
          Inr \<lparr>m_name = name, m_fields = ns_fields ns, m_annotations = ns_annotations ns\<rparr>)"



text \<open>
  The loop of \<open>_build_executable_from_args\<close> over \<open>argspec.annotations.items()\<close>.
  \<open>getattr(annot, "__name__", "") == "Annotated"\<close> holds for an \<open>Annotated\<close> alias,
  and for a class that happens to have that name, on which
  \<open>annottype, *annotspec = t.get_args(annotation)\<close> has nothing to unpack.
\<close>

record build_state =
  shell_argument :: "string option"
  request_schema :: namespace
  response_schema :: namespace

definition type_name :: "pytype \<Rightarrow> string" where
  "type_name ty = (case ty of PyClass i n b \<Rightarrow> n | PyAlias n \<Rightarrow> n)"

definition parse_plain ::
  "(string \<times> pyval) list \<Rightarrow> (string \<times> string) list \<Rightarrow> (string \<times> string) option
     \<Rightarrow> string \<Rightarrow> pytype \<Rightarrow> exn + (pytype \<times> string \<times> pyval)" where
  "parse_plain defaults_map paramdesc returns arg ty =
     (if type_name ty = ''Annotated''
      then Inl (ValueError ''not enough values to unpack (expected at least 1, got 0)'')
      else
        (let (annottype, description0) = parse_raw_type arg ty;
             description1 = (case map_of paramdesc arg of None \<Rightarrow> description0 | Some d \<Rightarrow> d);
             dflt = (case map_of defaults_map arg of None \<Rightarrow> PEllipsis | Some v \<Rightarrow> v);
             description = (if arg = ''return'' \<and> returns \<noteq> None
                            then snd (the returns) else description1)
         in Inr (annottype, description, dflt)))"

text \<open>The end of the loop's body: the field goes to the response or to the request.\<close>

definition store_field ::
  "(string \<times> string) option \<Rightarrow> string \<Rightarrow> pytype \<times> string \<times> pyval \<Rightarrow> build_state
     \<Rightarrow> exn + build_state" where
  "store_field returns arg parsed st =
     (let (annottype, description, dflt) = parsed;
          fi = \<lparr>fi_default = dflt, fi_description = Some description, fi_title = None\<rparr>
      in if arg = ''return''
         then
           (case ns_set (response_schema st)
                   (case returns of None \<Rightarrow> arg | Some (rname, d) \<Rightarrow> rname) fi annottype of
              Inl e \<Rightarrow> Inl e
            | Inr ns \<Rightarrow> Inr (st\<lparr>response_schema := ns\<rparr>))
         else
           (case ns_set (request_schema st) arg fi annottype of
              Inl e \<Rightarrow> Inl e
            | Inr ns \<Rightarrow> Inr (st\<lparr>request_schema := ns\<rparr>)))"

fun build_loop ::
  "(string \<times> pyval) list \<Rightarrow> (string \<times> string) list \<Rightarrow> (string \<times> string) option
     \<Rightarrow> (string \<times> annotation) list \<Rightarrow> build_state \<Rightarrow> exn + build_state" where
  "build_loop defaults_map paramdesc returns [] st = Inr st"
| "build_loop defaults_map paramdesc returns ((arg, annot) # items) st =
     (case annot of
        Shell \<Rightarrow>
          build_loop defaults_map paramdesc returns items (st\<lparr>shell_argument := Some arg\<rparr>)
      | Annotated ty specs \<Rightarrow>
          (case parse_annotated_type arg ty specs of
             Inl e \<Rightarrow> Inl e
           | Inr parsed \<Rightarrow>
               (case store_field returns arg parsed st of
                  Inl e \<Rightarrow> Inl e
                | Inr st1 \<Rightarrow> build_loop defaults_map paramdesc returns items st1))
      | Raw ty \<Rightarrow>
          (case parse_plain defaults_map paramdesc returns arg ty of
             Inl e \<Rightarrow> Inl e
           | Inr parsed \<Rightarrow>
               (case store_field returns arg parsed st of
                  Inl e \<Rightarrow> Inl e
                | Inr st1 \<Rightarrow> build_loop defaults_map paramdesc returns items st1)))"

text \<open>\<open>dict(zip(reversed(argspec.annotations), reversed(argspec.defaults or [])))\<close>.\<close>

definition dict_of :: "('k \<times> 'v) list \<Rightarrow> ('k \<times> 'v) list" where
  "dict_of kvs = fold (\<lambda>(k, v) d. AList.update k v d) kvs []"

definition defaults_dict :: "full_arg_spec \<Rightarrow> (string \<times> pyval) list" where
  "defaults_dict argspec =
     dict_of (zip (rev (map fst (annotations argspec)))
                  (rev (case defaults argspec of None \<Rightarrow> [] | Some ds \<Rightarrow> ds)))"

text \<open>
  The closure \<open>execute\<close> that \<open>_build_executable_from_args\<close> returns, with the
  variables it captures, and the entry point of an action: the callable itself or that
  closure. \<open>request\<close> is the request object, \<open>metadata\<close> the dictionary of the
  invocation.
\<close>

record executable =
  x_f :: callable
  x_shell_argument :: "string option"
  x_returns :: "(string \<times> string) option"
  x_response_schema :: model
  x_doc :: string
  x_name :: string

datatype entry_point = Original callable | Execute executable

datatype schema_type = Declared annotation | Created model





definition build_executable_from_args ::
  "pydantic \<Rightarrow> callable \<Rightarrow> exn + (entry_point \<times> schema_type \<times> schema_type \<times> bool)" where
  "build_executable_from_args lib f =
     (let argspec = getfullargspec f;
          defaults_map = defaults_dict argspec
      in case parse_docstring (c_doc f) of
           Inl e \<Rightarrow> Inl e
         | Inr (header, paramdesc, returns) \<Rightarrow>
             (case build_loop defaults_map paramdesc returns (annotations argspec)
                     \<lparr>shell_argument = None, request_schema = empty_namespace,
                      response_schema = empty_namespace\<rparr> of
                Inl e \<Rightarrow> Inl e
              | Inr st \<Rightarrow>
                  (case create_type lib (camelize (c_name f) @ ''Request'')
                          (request_schema st) of
                     Inl e \<Rightarrow> Inl e
                   | Inr RequestSchema \<Rightarrow>
                       (case create_type lib (camelize (c_name f) @ ''Response'')
                               (response_schema st) of
                          Inl e \<Rightarrow> Inl e
                        | Inr ResponseSchema \<Rightarrow>
                            Inr (Execute \<lparr>x_f = f, x_shell_argument = shell_argument st,
                                           x_returns = returns,
                                           x_response_schema = ResponseSchema,
                                           x_doc = header, x_name = c_name f\<rparr>,
                                 Created RequestSchema, Created ResponseSchema,
                                 shell_argument st \<noteq> None)))))"

definition parse_schemas ::
  "pydantic \<Rightarrow> callable \<Rightarrow> bool
     \<Rightarrow> exn + (entry_point \<times> schema_type \<times> schema_type \<times> bool)" where
  "parse_schemas lib f runs_on_shell =
     (let argspec = getfullargspec f
      in case is_simple_action argspec of
           Inl e \<Rightarrow> Inl e
         | Inr True \<Rightarrow>
             Inr (Original f,
                  Declared (the (map_of (annotations argspec) ''request_data'')),
                  Declared (the (map_of (annotations argspec) ''return'')),
                  runs_on_shell)
         | Inr False \<Rightarrow> build_executable_from_args lib f)"

section \<open>Wrapped actions, tool classes and the registry (tools/base/runtime.py)\<close>

text \<open>
  Action classes are objects that the tool classes share and that the metaclass
  mutates, so they live in a heap: the list of all action classes made so far, an
  action's address being its index. \<open>a_entry\<close> is the callable that
  \<open>WrappedAction.execute\<close> delegates to.
\<close>

record action_data =
  d_name :: string
  d_app :: string
  d_tags :: "string list"
  d_no_auth :: bool
  d_is_local :: bool
  d_is_runtime :: bool
  d_shell :: bool

record action =
  a_class_name :: string
  a_doc :: "string option"
  a_tags :: "string list"
  a_tool :: string
  a_name :: string
  a_enum :: string
  a_display_name :: string
  a_file :: string
  a_requires :: "string list option"
  a_run_on_shell :: bool
  a_data :: action_data
  a_request_schema :: schema_type
  a_response_schema :: schema_type
  a_entry :: entry_point

text \<open>
  A tool class made by \<open>_create_tool_class\<close>. \<open>t_actions\<close> is the list its
  \<open>actions()\<close> returns, \<open>t_registered\<close> its \<open>_actions\<close> dictionary. The
  attributes the metaclass sets are \<open>None\<close> when it returns early. The attributes
  \<open>file\<close> and \<open>display_name\<close>, which nothing else reads, are left out.
\<close>

record tool =
  t_class_name :: string
  t_doc :: string
  t_gid :: string
  t_name :: "string option"
  t_enum :: "string option"
  t_description :: "string option"
  t_actions :: "nat list"
  t_registered :: "(string \<times> nat) list"

record runtime_state =
  heap :: "action list"
  registry_runtime :: "(string \<times> tool) list"
  runtime_actions :: "(string \<times> action_data) list"

definition empty_state :: runtime_state where
  "empty_state = \<lparr>heap = [], registry_runtime = [], runtime_actions = []\<rparr>"

definition entry_name :: "entry_point \<Rightarrow> string" where
  "entry_name f = (case f of Original g \<Rightarrow> c_name g | Execute x \<Rightarrow> x_name x)"

definition entry_doc :: "entry_point \<Rightarrow> string option" where
  "entry_doc f = (case f of Original g \<Rightarrow> c_doc g | Execute x \<Rightarrow> Some (x_doc x))"

text \<open>
  The loop of \<open>RuntimeToolMeta.__init__\<close> over \<open>cls.actions()\<close>: every action of
  the list gets the tool's name, and the tool's enum in front of its own.
\<close>

fun namespace_actions ::
  "string \<Rightarrow> string \<Rightarrow> nat list \<Rightarrow> action list \<Rightarrow> (string \<times> nat) list
     \<Rightarrow> action list \<times> (string \<times> nat) list" where
  "namespace_actions tname tenum [] h acts = (h, acts)"
| "namespace_actions tname tenum (a # as) h acts =
     (let act = (h ! a)\<lparr>a_tool := tname, a_enum := tenum @ ''_'' @ a_enum (h ! a)\<rparr>
      in namespace_actions tname tenum as (h[a := act]) (AList.update (a_enum act) a acts))"

text \<open>
  \<open>_create_tool_class\<close> with the metaclass's \<open>__init__\<close>, which runs when
  \<open>type(...)\<close> makes the class. The bases (\<open>LocalToolMixin\<close> is outside the
  sources) are taken to define none of \<open>mame\<close>, \<open>enum\<close> and \<open>_actions\<close>, so
  each \<open>getattr\<close> returns its default. The \<open>actions\<close> of the class is a class
  method and not abstract: neither \<open>RuntimeError\<close> is raised.
\<close>

definition create_tool_class :: "string \<Rightarrow> nat list \<Rightarrow> action list \<Rightarrow> tool \<times> action list" where
  "create_tool_class name actions h =
     (let cname = camelize name;
          doc = title name @ '' tool.''
      in if cname = ''RuntimeTool''
         then (\<lparr>t_class_name = cname, t_doc = doc, t_gid = ''runtime'', t_name = None,
                 t_enum = None, t_description = None, t_actions = actions,
                 t_registered = []\<rparr>, h)
         else
           (let tname = underscore cname;
                tenum = upper tname;
                (h1, acts) = namespace_actions tname tenum actions h []
            in (\<lparr>t_class_name = cname, t_doc = doc, t_gid = ''runtime'', t_name = Some tname,
                   t_enum = Some tenum, t_description = Some (rstrip (lstrip doc)),
                   t_actions = actions, t_registered = acts\<rparr>, h1)))"

text \<open>
  Modelled from the spec: \<open>add_runtime_action\<close> of \<open>composio.client.enums.base\<close>,
  which is not among the sources. It inserts the action's data under its enum in the
  global mapping, a later registration replacing an earlier one.
\<close>

definition add_runtime_action ::
  "string \<Rightarrow> action_data \<Rightarrow> (string \<times> action_data) list \<Rightarrow> (string \<times> action_data) list" where
  "add_runtime_action enum data m = AList.update enum data m"

text \<open>\<open>_wrap\<close>: returns the address of the new action class and the new state.\<close>

definition wrap ::
  "entry_point \<Rightarrow> string \<Rightarrow> string list \<Rightarrow> string \<Rightarrow> schema_type \<Rightarrow> schema_type \<Rightarrow> bool
     \<Rightarrow> string list option \<Rightarrow> runtime_state \<Rightarrow> nat \<times> runtime_state" where
  "wrap f toolname tags file request_model response_model runs_on_shell requires st =
     (let cls = \<lparr>a_class_name = camelize (entry_name f), a_doc = entry_doc f, a_tags = tags,
                  a_tool = toolname, a_name = entry_name f, a_enum = upper (entry_name f),
                  a_display_name = entry_name f, a_file = file, a_requires = requires,
                  a_run_on_shell = runs_on_shell,
                  a_data = \<lparr>d_name = entry_name f, d_app = toolname, d_tags = tags,
                             d_no_auth = True, d_is_local = True, d_is_runtime = True,
                             d_shell = runs_on_shell\<rparr>,
                  a_request_schema = request_model, a_response_schema = response_model,
                  a_entry = f\<rparr>;
          addr = length (heap st);
          existing_actions =
            (case map_of (registry_runtime st) toolname of
               None \<Rightarrow> []
             | Some t \<Rightarrow> t_actions t);
          (tool, h) = create_tool_class toolname (addr # existing_actions) (heap st @ [cls])
      in (addr,
          \<lparr>heap = h,
           registry_runtime = AList.update toolname tool (registry_runtime st),
           runtime_actions =
             add_runtime_action (a_enum (h ! addr)) (a_data (h ! addr)) (runtime_actions st)\<rparr>))"

text \<open>The decorator \<open>action(toolname, runs_on_shell, tags, requires)\<close> applied to \<open>f\<close>,
  whose source file is \<open>file\<close>.\<close>

definition action_decorator ::
  "pydantic \<Rightarrow> string \<Rightarrow> bool \<Rightarrow> string list option \<Rightarrow> string list option \<Rightarrow> callable
     \<Rightarrow> string \<Rightarrow> runtime_state \<Rightarrow> exn + (nat \<times> runtime_state)" where
  "action_decorator lib toolname runs_on_shell tags requires f file st =
     (case parse_schemas lib f runs_on_shell of
        Inl e \<Rightarrow> Inl e
      | Inr (g, RequestSchema, ResponseSchema, ros) \<Rightarrow>
          Inr (wrap g toolname (case tags of None \<Rightarrow> [] | Some ts \<Rightarrow> ts) file
                 RequestSchema ResponseSchema ros requires st))"

text \<open>The registry's view of a tool: the list its \<open>actions()\<close> returns.\<close>

definition tool_actions :: "runtime_state \<Rightarrow> string \<Rightarrow> nat list" where
  "tool_actions st toolname =
     (case map_of (registry_runtime st) toolname of None \<Rightarrow> [] | Some t \<Rightarrow> t_actions t)"

section \<open>Schema synthesis (auto_gen/composio_autogen/autogen_toolspec.py)\<close>

text \<open>
  A node of the parameter schema is a dictionary; the model keeps the keys the code
  reads, each absent or present. \<open>properties\<close> is a dictionary in insertion order.
  The value of \<open>type\<close> is a type name or, as JSON Schema also allows, a list of
  type names.
\<close>

datatype type_value = TypeName string | TypeNames "string list"

datatype schema =
  Schema (s_title: "string option") (s_type: "type_value option")
    (s_properties: "(string \<times> schema) list option") (s_required: "string list option")
    (s_default: "pyval option") (s_description: "string option") (s_desc: "string option")

text \<open>
  The type of a synthesized field: one of the Python types of
  \<open>schema_type_python_type_dict\<close>, or a model class. \<open>TModel name fields\<close> is the
  class that pydantic's \<open>create_model(name, **fields)\<close> returns, kept as the two
  arguments it was made from: the title and the field definitions, each a type and a
  \<open>Field\<close>.
\<close>

datatype signature_type =
    TStr | TFloat | TBool | TList
  | TModel string "(string \<times> signature_type \<times> field_info) list"

type_synonym field_definitions = "(string \<times> signature_type \<times> field_info) list"

definition schema_type_python_type_dict :: "(string \<times> signature_type) list" where
  "schema_type_python_type_dict =
     [(''string'', TStr), (''number'', TFloat), (''boolean'', TBool), (''array'', TList)]"

definition fallback_values :: "(string \<times> pyval) list" where
  "fallback_values =
     [(''string'', PStr ''''), (''number'', PFloat 0), (''boolean'', PBool False),
      (''object'', PDict []), (''array'', PList [])]"

text \<open>
  \<open>create_model\<close> is pydantic's, so whether it raises on a title and field
  definitions is a parameter \<open>cm\<close> of the synthesis.
\<close>

definition create_model ::
  "(string \<Rightarrow> field_definitions \<Rightarrow> raised option) \<Rightarrow> string \<Rightarrow> field_definitions
     \<Rightarrow> exn + signature_type" where
  "create_model cm name flds =
     (case cm name flds of
        Some r \<Rightarrow> Inl (library_exn r)
      | None \<Rightarrow> Inr (TModel name flds))"

text \<open>
  The two \<open>Field\<close> calls: \<open>Field(..., title=, description=)\<close> for a required
  property, \<open>Field(title=, default=)\<close> for an optional one.
\<close>

definition make_field ::
  "string list \<Rightarrow> string \<Rightarrow> schema \<Rightarrow> string \<Rightarrow> pyval \<Rightarrow> field_info" where
  "make_field required_props prop_name prop_info prop_title prop_default =
     (if prop_name \<in> set required_props
      then \<lparr>fi_default = PEllipsis,
            fi_description =
              Some (case s_description prop_info of
                      Some d \<Rightarrow> d
                    | None \<Rightarrow> (case s_desc prop_info of Some d \<Rightarrow> d | None \<Rightarrow> prop_title)),
            fi_title = Some prop_title\<rparr>
      else \<lparr>fi_default = prop_default, fi_description = None, fi_title = Some prop_title\<rparr>)"

definition add_field ::
  "string list \<Rightarrow> string \<Rightarrow> schema \<Rightarrow> string \<Rightarrow> pyval \<Rightarrow> signature_type
     \<Rightarrow> field_definitions \<Rightarrow> field_definitions" where
  "add_field required_props prop_name prop_info prop_title prop_default signature_prop_type flds =
     AList.update prop_name
       (signature_prop_type,
        make_field required_props prop_name prop_info prop_title prop_default) flds"

text \<open>
  \<open>pydantic_model_from_param_schema\<close> and its loop over the properties. A missing
  key raises \<open>KeyError\<close>; \<open>fallback_values[prop_type]\<close> is evaluated before
  \<open>prop_info.get\<close> is called, whether or not the property has a default, and raises
  \<open>TypeError\<close> on a list, which cannot be a key. The function ends in
  \<open>create_model\<close>, whose exception it does not catch.
\<close>

function (sequential) pydantic_model_from_param_schema ::
    "(string \<Rightarrow> field_definitions \<Rightarrow> raised option) \<Rightarrow> schema \<Rightarrow> exn + signature_type"
  and synthesize_fields ::
    "(string \<Rightarrow> field_definitions \<Rightarrow> raised option) \<Rightarrow> string list
       \<Rightarrow> (string \<times> schema) list \<Rightarrow> field_definitions \<Rightarrow> exn + field_definitions" where
  "pydantic_model_from_param_schema cm
       (Schema ttl ty properties required dflt description desc) =
     (case ttl of
        None \<Rightarrow> Inl (KeyError ''title'')
      | Some t \<Rightarrow>
          (case properties of
             None \<Rightarrow> Inl (KeyError ''properties'')
           | Some props \<Rightarrow>
               (case synthesize_fields cm (case required of None \<Rightarrow> [] | Some r \<Rightarrow> r) props [] of
                  Inl e \<Rightarrow> Inl e
                | Inr flds \<Rightarrow> create_model cm (replace '' '' [] t) flds)))"
| "synthesize_fields cm required_props [] flds = Inr flds"
| "synthesize_fields cm required_props ((prop_name, prop_info) # rest) flds =
     (case s_type prop_info of
        None \<Rightarrow> Inl (KeyError ''type'')
      | Some (TypeNames names) \<Rightarrow>
          (case s_title prop_info of
             None \<Rightarrow> Inl (KeyError ''title'')
           | Some t \<Rightarrow>
               Inl (TypeError (''unhashable type: '' @ [CHR 0x27] @ ''list'' @ [CHR 0x27])))
      | Some (TypeName prop_type) \<Rightarrow>
          (case s_title prop_info of
             None \<Rightarrow> Inl (KeyError ''title'')
           | Some t \<Rightarrow>
               (case map_of fallback_values prop_type of
                  None \<Rightarrow> Inl (KeyError prop_type)
                | Some fallback \<Rightarrow>
                    (case map_of schema_type_python_type_dict prop_type of
                       Some signature_prop_type \<Rightarrow>
                         synthesize_fields cm required_props rest
                           (add_field required_props prop_name prop_info
                              (replace '' '' [] t)
                              (case s_default prop_info of None \<Rightarrow> fallback | Some d \<Rightarrow> d)
                              signature_prop_type flds)
                     | None \<Rightarrow>
                         (case pydantic_model_from_param_schema cm prop_info of
                            Inl e \<Rightarrow> Inl e
                          | Inr signature_prop_type \<Rightarrow>
                              synthesize_fields cm required_props rest
                                (add_field required_props prop_name prop_info
                                   (replace '' '' [] t)
                                   (case s_default prop_info of None \<Rightarrow> fallback | Some d \<Rightarrow> d)
                                   signature_prop_type flds))))))"
  by pat_completeness auto
termination
  by (relation "measure (\<lambda>x. case x of
          Inl (cm, s) \<Rightarrow> 2 * size s
        | Inr (cm, req, ps, acc) \<Rightarrow> 2 * size_list (size_prod (\<lambda>_. 0) size) ps + 1)")
     auto

text \<open>
  \<open>get_signature_format_from_schema_params\<close>: one \<open>inspect.Parameter\<close> per property,
  with its type, the description that annotates it and its default, \<open>None\<close> standing
  for \<open>Parameter.empty\<close>. Here the type is resolved before the fallback value is
  looked up, and the membership test is what raises \<open>TypeError\<close> on a list.
  \<open>inspect.Parameter\<close> checks the name it is given (a keyword or a string that is no
  identifier is refused): whether it raises is the parameter \<open>pe\<close>.
\<close>

record parameter =
  par_name :: string
  par_type :: signature_type
  par_description :: string
  par_default :: "pyval option"

fun signature_parameters ::
  "(string \<Rightarrow> field_definitions \<Rightarrow> raised option) \<Rightarrow> (parameter \<Rightarrow> raised option)
     \<Rightarrow> string list \<Rightarrow> (string \<times> schema) list \<Rightarrow> exn + parameter list" where
  "signature_parameters cm pe required_params [] = Inr []"
| "signature_parameters cm pe required_params ((param_name, param_schema) # rest) =
     (case s_type param_schema of
        None \<Rightarrow> Inl (KeyError ''type'')
      | Some (TypeNames names) \<Rightarrow>
          (case s_title param_schema of
             None \<Rightarrow> Inl (KeyError ''title'')
           | Some t \<Rightarrow>
               Inl (TypeError (''unhashable type: '' @ [CHR 0x27] @ ''list'' @ [CHR 0x27])))
      | Some (TypeName param_type) \<Rightarrow>
          (case s_title param_schema of
             None \<Rightarrow> Inl (KeyError ''title'')
           | Some t \<Rightarrow>
               (case (case map_of schema_type_python_type_dict param_type of
                        Some pt \<Rightarrow> Inr pt
                      | None \<Rightarrow> pydantic_model_from_param_schema cm param_schema) of
                  Inl e \<Rightarrow> Inl e
                | Inr signature_param_type \<Rightarrow>
                    (case map_of fallback_values param_type of
                       None \<Rightarrow> Inl (KeyError param_type)
                     | Some fallback \<Rightarrow>
                         (let param =
                                \<lparr>par_name = param_name, par_type = signature_param_type,
                                 par_description =
                                   (case s_description param_schema of
                                      Some d \<Rightarrow> d
                                    | None \<Rightarrow>
                                        (case s_desc param_schema of
                                           Some d \<Rightarrow> d
                                         | None \<Rightarrow> replace '' '' [] t)),
                                 par_default =
                                   (if param_name \<in> set required_params then None
                                    else Some (case s_default param_schema of
                                                 None \<Rightarrow> fallback
                                               | Some d \<Rightarrow> d))\<rparr>
                          in case pe param of
                               Some r \<Rightarrow> Inl (library_exn r)
                             | None \<Rightarrow>
                                 (case signature_parameters cm pe required_params rest of
                                    Inl e \<Rightarrow> Inl e
                                  | Inr parameters \<Rightarrow> Inr (param # parameters)))))))"

definition get_signature_format_from_schema_params ::
  "(string \<Rightarrow> field_definitions \<Rightarrow> raised option) \<Rightarrow> (parameter \<Rightarrow> raised option)
     \<Rightarrow> schema \<Rightarrow> exn + parameter list" where
  "get_signature_format_from_schema_params cm pe schema_params =
     (case s_properties schema_params of
        None \<Rightarrow> Inl (KeyError ''properties'')
      | Some props \<Rightarrow>
          signature_parameters cm pe
            (case s_required schema_params of None \<Rightarrow> [] | Some r \<Rightarrow> r) props)"


text \<open>
  A \<open>type\<close> value that is neither one of the supported primitives nor \<open>object\<close>,
  and a property with such a type among the properties of the schema or of an
  \<open>object\<close> property below it.
\<close>

definition unsupported_type :: "type_value \<Rightarrow> bool" where
  "unsupported_type tv =
     (case tv of
        TypeName t \<Rightarrow> map_of schema_type_python_type_dict t = None \<and> t \<noteq> ''object''
      | TypeNames names \<Rightarrow> True)"

inductive unsupported_leaf_in :: "schema \<Rightarrow> bool" where
  direct:
    "s_properties s = Some props \<Longrightarrow> (n, p) \<in> set props \<Longrightarrow> s_type p = Some tv
     \<Longrightarrow> unsupported_type tv \<Longrightarrow> unsupported_leaf_in s"
| nested:
    "s_properties s = Some props \<Longrightarrow> (n, p) \<in> set props
     \<Longrightarrow> s_type p = Some (TypeName ''object'')
     \<Longrightarrow> unsupported_leaf_in p \<Longrightarrow> unsupported_leaf_in s"


text \<open>
  A \<open>create_model\<close> and a \<open>Parameter\<close> for concrete runs. The first refuses a
  field name that starts with an underscore, as pydantic does. The second refuses the
  empty name, a name that is not an identifier in ASCII, and the keywords listed.
\<close>

definition sample_create_model :: "string \<Rightarrow> field_definitions \<Rightarrow> raised option" where
  "sample_create_model name flds =
     (if list_ex leading_underscore (map fst flds)
      then Some (Raised ''NameError'' ''Fields must not use names with leading underscores'')
      else None)"

definition is_identifier :: "string \<Rightarrow> bool" where
  "is_identifier n =
     (case n of
        [] \<Rightarrow> False
      | c # cs \<Rightarrow>
          (is_lower c \<or> is_upper c \<or> c = CHR ''_'')
          \<and> list_all (\<lambda>d. is_lower d \<or> is_upper d \<or> is_digit d \<or> d = CHR ''_'') cs)"

definition sample_Parameter :: "parameter \<Rightarrow> raised option" where
  "sample_Parameter param =
     (if par_name param = [] then Some (Raised ''IndexError'' ''string index out of range'')
      else if par_name param \<in> set [''class'', ''def'', ''return'', ''import'', ''from'', ''if'']
      then Some (Raised ''ValueError''
                   ([CHR 0x27] @ par_name param @ [CHR 0x27] @ '' is not a valid parameter name''))
      else if is_identifier (par_name param) then None
      else Some (Raised ''ValueError''
                   ([CHR 0x27] @ par_name param @ [CHR 0x27] @ '' is not a valid parameter name'')))"


definition integer_leaf :: schema where
  "integer_leaf =
     Schema (Some ''LineNumber'') (Some (TypeName ''integer'')) None None None None None"

definition integer_schema :: schema where
  "integer_schema =
     Schema (Some ''Goto'') (Some (TypeName ''object'')) (Some [(''line_number'', integer_leaf)])
       (Some [''line_number'']) None None None"

definition nested_integer_schema :: schema where
  "nested_integer_schema =
     Schema (Some ''Outer'') (Some (TypeName ''object''))
       (Some [(''inner'', integer_schema)]) None None None None"

definition union_schema :: schema where
  "union_schema =
     Schema (Some ''Goto'') (Some (TypeName ''object''))
       (Some [(''line_number'',
               Schema (Some ''LineNumber'') (Some (TypeNames [''number'', ''null''])) None None
                 None None None)])
       None None None None"


section \<open>Sample callables and registrations\<close>

definition int_type :: pytype where
  "int_type = PyClass 1 ''int'' False"

definition str_type :: pytype where
  "str_type = PyClass 2 ''str'' False"

text \<open>\<open>def <name>(a: int, b: int = 1) -> int\<close> with the docstring "Compute.".\<close>

definition binop :: "string \<Rightarrow> callable" where
  "binop n =
     \<lparr>c_name = n, c_doc = Some ''Compute.'',
      c_params =
        [\<lparr>p_name = ''a'', p_kind = POSITIONAL_OR_KEYWORD, p_annotation = Some (Raw int_type),
          p_default = None\<rparr>,
         \<lparr>p_name = ''b'', p_kind = POSITIONAL_OR_KEYWORD, p_annotation = Some (Raw int_type),
          p_default = Some (PInt 1)\<rparr>],
      c_return = Some (Raw int_type),
      c_call = (\<lambda>kwargs. Inr (PDict kwargs))\<rparr>"

text \<open>
  A pydantic for concrete runs. It refuses a namespace with a field whose name starts
  with an underscore, as pydantic does ("Fields must not use names with leading
  underscores"); it makes an instance when every required field is given; and the dump
  of an instance is its fields.
\<close>

definition sample_pydantic :: pydantic where
  "sample_pydantic =
     \<lparr>pd_new_class =
        (\<lambda>name ns. if list_ex leading_underscore (map fst (ns_fields ns))
                    then Some (Raised ''NameError''
                                 ''Fields must not use names with leading underscores'')
                    else None),
      pd_construct =
        (\<lambda>m kwargs. if list_all (\<lambda>(k, fi). if fi_default fi = PEllipsis
                                               then k \<in> set (map fst kwargs) else True)
                          (m_fields m)
                     then Inr (PModel (m_name m) kwargs)
                     else Inl (Raised ''ValidationError'' ''Field required'')),
      pd_model_dump =
        (\<lambda>v. case v of
                PModel n kvs \<Rightarrow> Inr kvs
              | _ \<Rightarrow> Inl (Raised ''AttributeError'' ''model_dump''))\<rparr>"

text \<open>The registry after \<open>@action(toolname="math")\<close> on \<open>add\<close>, and then on \<open>sub\<close>.\<close>

definition math_state1 :: runtime_state where
  "math_state1 =
     (case action_decorator sample_pydantic ''math'' False None None (binop ''add'') ''tools.py''
             empty_state of
        Inl e \<Rightarrow> empty_state
      | Inr (a, st) \<Rightarrow> st)"

definition math_state2 :: runtime_state where
  "math_state2 =
     (case action_decorator sample_pydantic ''math'' False None None (binop ''sub'') ''tools.py''
             math_state1 of
        Inl e \<Rightarrow> empty_state
      | Inr (a, st) \<Rightarrow> st)"

section \<open>Well-formed signatures\<close>

text \<open>
  What Python's grammar gives every function: parameter names are distinct, none is the
  keyword \<open>return\<close>, and among the positional parameters none without a default
  follows one with a default.
\<close>

definition wf_signature :: "callable \<Rightarrow> bool" where
  "wf_signature f =
     (distinct (map p_name (c_params f))
      \<and> ''return'' \<notin> set (map p_name (c_params f))
      \<and> list_all (\<lambda>p. p_default p \<noteq> None)
           (dropWhile (\<lambda>p. p_default p = None) (filter is_positional (c_params f))))"

text \<open>The annotated parameters as dictionary items, and the item of the return annotation.\<close>

definition annotation_items :: "param list \<Rightarrow> (string \<times> annotation) list" where
  "annotation_items ps = List.map_filter (\<lambda>p. map_option (Pair (p_name p)) (p_annotation p)) ps"

definition return_item :: "callable \<Rightarrow> (string \<times> annotation) list" where
  "return_item f = (case c_return f of None \<Rightarrow> [] | Some r \<Rightarrow> [(''return'', r)])"

text \<open>A validated model type: a class that is a subclass of pydantic's \<open>BaseModel\<close>.\<close>

definition is_validated_model :: "annotation \<Rightarrow> bool" where
  "is_validated_model a = (issubclass_BaseModel a = Inr True)"

text \<open>
  \<open>def run(request_data: RunRequest, metadata: dict) -> RunResponse\<close>, both
  annotations being pydantic models.
\<close>

definition run_action :: callable where
  "run_action =
     \<lparr>c_name = ''run'', c_doc = Some ''Run a command.'',
      c_params =
        [\<lparr>p_name = ''request_data'', p_kind = POSITIONAL_OR_KEYWORD,
          p_annotation = Some (Raw (PyClass 10 ''RunRequest'' True)), p_default = None\<rparr>,
         \<lparr>p_name = ''metadata'', p_kind = POSITIONAL_OR_KEYWORD,
          p_annotation = Some (Raw (PyClass 3 ''dict'' False)), p_default = None\<rparr>],
      c_return = Some (Raw (PyClass 11 ''RunResponse'' True)),
      c_call = (\<lambda>kwargs. Inr (PModel ''RunResponse'' []))\<rparr>"

section \<open>Views of a compilation\<close>

text \<open>The parameters annotated with \<open>Shell\<close>, in the order of the signature.\<close>

definition shell_params :: "callable \<Rightarrow> param list" where
  "shell_params f = filter (\<lambda>p. p_annotation p = Some Shell) (c_params f)"

text \<open>The keys of the dictionary items whose annotation is \<open>Shell\<close>.\<close>

definition shell_items :: "(string \<times> annotation) list \<Rightarrow> string list" where
  "shell_items items = map fst (filter (\<lambda>(k, a). a = Shell) items)"

text \<open>The state in which the loop of \<open>_build_executable_from_args\<close> starts.\<close>

definition initial_build_state :: build_state where
  "initial_build_state =
     \<lparr>shell_argument = None, request_schema = empty_namespace,
      response_schema = empty_namespace\<rparr>"

text \<open>
  The keys the loop writes to the request namespace: those of the items that are neither
  \<open>Shell\<close> nor the return annotation. And the parameters that have an annotation
  other than \<open>Shell\<close>.
\<close>

definition request_items :: "(string \<times> annotation) list \<Rightarrow> string list" where
  "request_items items = map fst (filter (\<lambda>(k, a). a \<noteq> Shell \<and> k \<noteq> ''return'') items)"

definition request_params :: "callable \<Rightarrow> param list" where
  "request_params f =
     filter (\<lambda>q. p_annotation q \<noteq> None \<and> p_annotation q \<noteq> Some Shell) (c_params f)"


text \<open>\<open>def copy(src: Shell, dst: Shell, path: str) -> str\<close> with the docstring "Copy a file.".\<close>

definition copy_between :: callable where
  "copy_between =
     \<lparr>c_name = ''copy'', c_doc = Some ''Copy a file.'',
      c_params =
        [\<lparr>p_name = ''src'', p_kind = POSITIONAL_OR_KEYWORD, p_annotation = Some Shell,
          p_default = None\<rparr>,
         \<lparr>p_name = ''dst'', p_kind = POSITIONAL_OR_KEYWORD, p_annotation = Some Shell,
          p_default = None\<rparr>,
         \<lparr>p_name = ''path'', p_kind = POSITIONAL_OR_KEYWORD, p_annotation = Some (Raw str_type),
          p_default = None\<rparr>],
      c_return = Some (Raw str_type),
      c_call = (\<lambda>kwargs. Inr (PStr ''copied''))\<rparr>"




text \<open>\<open>def scale(a: int, b=5) -> int\<close> with the docstring "Scale.": \<open>b\<close> has no annotation.\<close>

definition scale :: callable where
  "scale =
     \<lparr>c_name = ''scale'', c_doc = Some ''Scale.'',
      c_params =
        [\<lparr>p_name = ''a'', p_kind = POSITIONAL_OR_KEYWORD, p_annotation = Some (Raw int_type),
          p_default = None\<rparr>,
         \<lparr>p_name = ''b'', p_kind = POSITIONAL_OR_KEYWORD, p_annotation = None,
          p_default = Some (PInt 5)\<rparr>],
      c_return = Some (Raw int_type),
      c_call = (\<lambda>kwargs. Inr (PInt 0))\<rparr>"

text \<open>
  \<open>def clamp(lo: int = 0, *, hi: int) -> int\<close> with the docstring "Clamp.": \<open>hi\<close>
  is keyword-only and has no default.
\<close>

definition clamp :: callable where
  "clamp =
     \<lparr>c_name = ''clamp'', c_doc = Some ''Clamp.'',
      c_params =
        [\<lparr>p_name = ''lo'', p_kind = POSITIONAL_OR_KEYWORD, p_annotation = Some (Raw int_type),
          p_default = Some (PInt 0)\<rparr>,
         \<lparr>p_name = ''hi'', p_kind = KEYWORD_ONLY, p_annotation = Some (Raw int_type),
          p_default = None\<rparr>],
      c_return = Some (Raw int_type),
      c_call = (\<lambda>kwargs. Inr (PInt 0))\<rparr>"

lemma strip_empty_iff: "strip s = [] \<longleftrightarrow> (\<forall>c \<in> set s. py_isspace c)"
proof -
  have "strip s = [] \<longleftrightarrow> dropWhile py_isspace (rev (dropWhile py_isspace s)) = []"
    by (simp add: strip_def rstrip_def lstrip_def)
  also have "\<dots> \<longleftrightarrow> (\<forall>c \<in> set (dropWhile py_isspace s). py_isspace c)"
    by (simp add: dropWhile_eq_Nil_conv)
  also have "\<dots> \<longleftrightarrow> (\<forall>c \<in> set s. py_isspace c)"
  proof
    assume a: "\<forall>c \<in> set (dropWhile py_isspace s). py_isspace c"
    show "\<forall>c \<in> set s. py_isspace c"
    proof (cases "dropWhile py_isspace s")
      case Nil
      then show ?thesis by (simp add: dropWhile_eq_Nil_conv)
    next
      case (Cons x xs)
      then have "\<not> py_isspace x" using hd_dropWhile [of py_isspace s] by auto
      moreover have "py_isspace x" using a Cons by simp
      ultimately show ?thesis by simp
    qed
  next
    assume "\<forall>c \<in> set s. py_isspace c"
    then show "\<forall>c \<in> set (dropWhile py_isspace s). py_isspace c"
      using set_dropWhileD by fastforce
  qed
  finally show ?thesis .
qed

lemma validate_file_name_iff:
  "validate_file_name fn \<longleftrightarrow> (\<exists>s. fn = Some s \<and> (\<exists>c \<in> set s. \<not> py_isspace c))"
  by (cases fn) (auto simp: validate_file_name_def strip_empty_iff)

text \<open>
  C10 (as the code has it). When the action's workspace is attached and the request's
  file name is \<open>None\<close>, empty or white space only, \<open>execute\<close> returns the response
  "Exception: file-name can not be empty" with return code 1, and the workspace is the
  one it was: no command has been issued to it.
\<close>

theorem CreateFileCmd_empty_file_name:
  assumes "workspace self = Some ws"
    and "file_name request_data = None
         \<or> (\<exists>s. file_name request_data = Some s \<and> (\<forall>c \<in> set s. py_isspace c))"
  shows "CreateFileCmd_execute process_output self request_data =
           (Inr \<lparr>resp_output = ''Exception: file-name can not be empty'', resp_return_code = 1\<rparr>,
            self\<lparr>workspace_id := req_workspace_id request_data\<rparr>)
         \<and> workspace (snd (CreateFileCmd_execute process_output self request_data)) = Some ws"
proof -
  have "\<not> validate_file_name (file_name request_data)"
    using assms(2) by (auto simp: validate_file_name_iff)
  then show ?thesis
    using assms(1) by (simp add: CreateFileCmd_execute_def setup_action_def Let_def)
qed

theorem CreateFileCmd_empty_file_name_witness:
  "CreateFileCmd_execute (\<lambda>out rc. (out, rc))
     (BaseAction_init\<lparr>workspace := Some \<lparr>ws_history = [], ws_respond = (\<lambda>h c. \<lparr>cmd_output = c, cmd_return_code = 0\<rparr>)\<rparr>\<rparr>)
     \<lparr>req_workspace_id = ''w1'', file_name = Some '' ''\<rparr>
   = (Inr \<lparr>resp_output = ''Exception: file-name can not be empty'', resp_return_code = 1\<rparr>,
      BaseAction_init\<lparr>workspace := Some \<lparr>ws_history = [], ws_respond = (\<lambda>h c. \<lparr>cmd_output = c, cmd_return_code = 0\<rparr>)\<rparr>,
                      workspace_id := ''w1''\<rparr>)"
proof -
  have sp: "\<forall>c \<in> set '' ''. py_isspace c" by (simp add: py_isspace_def)
  show ?thesis
    using CreateFileCmd_empty_file_name [of
        "BaseAction_init\<lparr>workspace := Some \<lparr>ws_history = [], ws_respond = (\<lambda>h c. \<lparr>cmd_output = c, cmd_return_code = 0\<rparr>)\<rparr>\<rparr>"
        "\<lparr>ws_history = [], ws_respond = (\<lambda>h c. \<lparr>cmd_output = c, cmd_return_code = 0\<rparr>)\<rparr>"
        "\<lparr>req_workspace_id = ''w1'', file_name = Some '' ''\<rparr>" "\<lambda>out rc. (out, rc)"] sp
    by (simp add: BaseAction_init_def)
qed

text \<open>
  C10 as stated fails on an action whose workspace has not been attached: \<open>_setup\<close>
  runs first and raises before the file name is looked at.
\<close>

theorem CreateFileCmd_no_workspace_counterexample:
  "fst (CreateFileCmd_execute (\<lambda>out rc. (out, rc)) BaseAction_init
          \<lparr>req_workspace_id = ''w1'', file_name = Some ''''\<rparr>)
   = Inl (ValueError ''workspace_factory is not set'')"
  by (simp add: CreateFileCmd_execute_def setup_action_def BaseAction_init_def Let_def)

text \<open>
  C9 (as the code has it). Once \<open>resolve()\<close> and \<open>exists()\<close>, which run before
  the \<open>try\<close> block, have returned, \<open>execute\<close> returns a dictionary in each of the
  three cases: the resolved path does not exist (only \<open>error_message\<close>, naming the
  path); the generation raised an exception that derives from \<open>Exception\<close>
  (\<open>repository_map\<close> is \<open>None\<close> and \<open>error_message\<close> contains the exception's
  text); the generation returned (\<open>status\<close> is "success" and \<open>error_message\<close> is
  \<open>None\<close>). An exception of \<open>resolve()\<close> or of \<open>exists()\<close>, and one of the
  generation that does not derive from \<open>Exception\<close>, reaches the caller.
\<close>

theorem GetRepoMap_execute_cases:
  "(\<forall>e. fs_resolve env (code_directory request_data) = Inl e \<longrightarrow>
        GetRepoMap_execute env request_data = Inl e)
   \<and> (\<forall>repo_root e. fs_resolve env (code_directory request_data) = Inr repo_root
          \<and> fs_exists env repo_root = Inl e \<longrightarrow>
        GetRepoMap_execute env request_data = Inl e)
   \<and> (\<forall>repo_root. fs_resolve env (code_directory request_data) = Inr repo_root
          \<and> fs_exists env repo_root = Inr False \<longrightarrow>
        GetRepoMap_execute env request_data =
          Inr [(''error_message'',
                RStr (''Repository root path '' @ [CHR 0x27] @ repo_root @ [CHR 0x27]
                      @ '' does not exist or is inaccessible.''))])
   \<and> (\<forall>repo_root e. fs_resolve env (code_directory request_data) = Inr repo_root
          \<and> fs_exists env repo_root = Inr True
          \<and> generate_map env repo_root request_data = Inl e \<and> is_Exception e \<longrightarrow>
        GetRepoMap_execute env request_data =
          Inr [(''repository_map'', RNone),
               (''error_message'',
                RStr (''An error occurred while generating the repository map: ''
                      @ exn_str e
                      @ ''. Please ensure all paths are correct and you have necessary permissions.''))])
   \<and> (\<forall>repo_root e. fs_resolve env (code_directory request_data) = Inr repo_root
          \<and> fs_exists env repo_root = Inr True
          \<and> generate_map env repo_root request_data = Inl e \<and> \<not> is_Exception e \<longrightarrow>
        GetRepoMap_execute env request_data = Inl e)
   \<and> (\<forall>repo_root m. fs_resolve env (code_directory request_data) = Inr repo_root
          \<and> fs_exists env repo_root = Inr True
          \<and> generate_map env repo_root request_data = Inr m \<longrightarrow>
        GetRepoMap_execute env request_data =
          Inr [(''status'', RStr ''success''), (''repository_map'', opt_rval m),
               (''error_message'', RNone)])"
  by (simp add: GetRepoMap_execute_def)

theorem GetRepoMap_execute_cases_witness:
  "GetRepoMap_execute sample_env
     \<lparr>code_directory = ''/repo'', files_of_interest = [], primary_file_paths = [],
      mentioned_idents = []\<rparr>
   = Inr [(''status'', RStr ''success''), (''repository_map'', RStr ''a.py''),
          (''error_message'', RNone)]
   \<and> GetRepoMap_execute sample_env
     \<lparr>code_directory = ''/nowhere'', files_of_interest = [], primary_file_paths = [],
      mentioned_idents = []\<rparr>
   = Inr [(''error_message'',
           RStr (''Repository root path '' @ [CHR 0x27] @ ''/nowhere'' @ [CHR 0x27]
                 @ '' does not exist or is inaccessible.''))]
   \<and> GetRepoMap_execute denied_env
     \<lparr>code_directory = ''/repo'', files_of_interest = [], primary_file_paths = [],
      mentioned_idents = []\<rparr>
   = Inr [(''repository_map'', RNone),
          (''error_message'',
           RStr (''An error occurred while generating the repository map: ''
                 @ ''[Errno 13] Permission denied''
                 @ ''. Please ensure all paths are correct and you have necessary permissions.''))]"
proof -
  define rq where "rq = \<lparr>code_directory = ''/repo'', files_of_interest = [],
                          primary_file_paths = [], mentioned_idents = []\<rparr>"
  define rn where "rn = \<lparr>code_directory = ''/nowhere'', files_of_interest = [],
                          primary_file_paths = [], mentioned_idents = []\<rparr>"
  have r: "fs_resolve sample_env (code_directory rq) = Inr ''/repo''"
    by (simp add: sample_env_def rq_def)
  have x: "fs_exists sample_env ''/repo'' = Inr True"
    by (simp add: sample_env_def)
  have g: "generate_map sample_env ''/repo'' rq = Inr (Some ''a.py'')"
    by (simp add: generate_map_def sample_env_def endswith_def rq_def)
  have 1: "GetRepoMap_execute sample_env rq
             = Inr [(''status'', RStr ''success''), (''repository_map'', RStr ''a.py''),
                    (''error_message'', RNone)]"
    using GetRepoMap_execute_cases [of sample_env rq] r x g
    by (simp add: opt_rval_def)
  have rn1: "fs_resolve sample_env (code_directory rn) = Inr ''/nowhere''"
    by (simp add: sample_env_def rn_def)
  have xn: "fs_exists sample_env ''/nowhere'' = Inr False"
    by (simp add: sample_env_def)
  have 2: "GetRepoMap_execute sample_env rn
             = Inr [(''error_message'',
                     RStr (''Repository root path '' @ [CHR 0x27] @ ''/nowhere'' @ [CHR 0x27]
                           @ '' does not exist or is inaccessible.''))]"
    using GetRepoMap_execute_cases [of sample_env rn] rn1 xn by simp
  have rd: "fs_resolve denied_env (code_directory rq) = Inr ''/repo''"
    by (simp add: denied_env_def sample_env_def rq_def)
  have xd: "fs_exists denied_env ''/repo'' = Inr True"
    by (simp add: denied_env_def sample_env_def)
  have gd: "generate_map denied_env ''/repo'' rq
              = Inl (OtherException ''[Errno 13] Permission denied'')"
    by (simp add: generate_map_def denied_env_def)
  have 3: "GetRepoMap_execute denied_env rq
             = Inr [(''repository_map'', RNone),
                    (''error_message'',
                     RStr (''An error occurred while generating the repository map: ''
                           @ ''[Errno 13] Permission denied''
                           @ ''. Please ensure all paths are correct and you have necessary permissions.''))]"
    using GetRepoMap_execute_cases [of denied_env rq] rd xd gd by simp
  show ?thesis
    using 1 2 3 unfolding rq_def rn_def by simp
qed

text \<open>
  C9 as stated fails in three ways. \<open>Path(...).resolve()\<close> and \<open>exists()\<close> run
  before the \<open>try\<close> block, so an exception of theirs reaches the caller: the first
  on a directory name with a NUL character, the second on a name of 256 characters.
  And \<open>except Exception\<close> lets a \<open>KeyboardInterrupt\<close> of the generation through.
\<close>

theorem GetRepoMap_execute_propagates_counterexample:
  "GetRepoMap_execute sample_env
     \<lparr>code_directory = [CHR ''a'', CHR 0x00, CHR ''b''], files_of_interest = [],
      primary_file_paths = [], mentioned_idents = []\<rparr>
   = Inl (ValueError ''embedded null byte'')
   \<and> GetRepoMap_execute sample_env
     \<lparr>code_directory = CHR ''/'' # replicate 256 (CHR ''x''), files_of_interest = [],
      primary_file_paths = [], mentioned_idents = []\<rparr>
   = Inl (OtherException ''[Errno 36] File name too long'')
   \<and> GetRepoMap_execute interrupted_env
     \<lparr>code_directory = ''/repo'', files_of_interest = [], primary_file_paths = [],
      mentioned_idents = []\<rparr>
   = Inl (BaseExc ''KeyboardInterrupt'')"
  by (simp add: GetRepoMap_execute_def sample_env_def interrupted_env_def generate_map_def
        endswith_def)

subsection \<open>The registry\<close>

lemma t_actions_create_tool_class:
  "t_actions (fst (create_tool_class name actions h)) = actions"
  by (simp add: create_tool_class_def Let_def case_prod_beta)

lemma namespace_actions_name:
  "a_name (fst (namespace_actions tname tenum as h acts) ! i) = a_name (h ! i)"
proof (induction as arbitrary: h acts)
  case Nil
  then show ?case by simp
next
  case (Cons a as)
  have "a_name (h[a := (h ! a)\<lparr>a_tool := tname, a_enum := tenum @ ''_'' @ a_enum (h ! a)\<rparr>] ! i)
        = a_name (h ! i)"
    by (cases "a < length h"; cases "i = a") (simp_all add: list_update_beyond)
  with Cons show ?case by (simp add: Let_def)
qed

lemma create_tool_class_name:
  "a_name (snd (create_tool_class name actions h) ! i) = a_name (h ! i)"
  using namespace_actions_name [of "underscore (camelize name)"
      "upper (underscore (camelize name))" actions h "[]" i]
  by (simp add: create_tool_class_def Let_def case_prod_beta)

lemma heap_wrap:
  "heap (snd (wrap f toolname tags file rq rs ros reqs st)) =
     snd (create_tool_class toolname (length (heap st) # tool_actions st toolname)
            (heap st @
              [\<lparr>a_class_name = camelize (entry_name f), a_doc = entry_doc f, a_tags = tags,
                a_tool = toolname, a_name = entry_name f, a_enum = upper (entry_name f),
                a_display_name = entry_name f, a_file = file, a_requires = reqs,
                a_run_on_shell = ros,
                a_data = \<lparr>d_name = entry_name f, d_app = toolname, d_tags = tags,
                           d_no_auth = True, d_is_local = True, d_is_runtime = True,
                           d_shell = ros\<rparr>,
                a_request_schema = rq, a_response_schema = rs, a_entry = f\<rparr>]))"
  by (simp add: wrap_def tool_actions_def Let_def case_prod_beta)

lemma math_state1_facts:
  "length (heap math_state1) = 1" "tool_actions math_state1 ''math'' = [0]"
  by code_simp+

text \<open>
  C8. Registering an action under a tool name makes a new action class, and the tool's
  \<open>actions()\<close> list becomes that new action followed by the list the tool had before
  (the empty list for a new tool), in its order. The actions that were there keep their
  names.
\<close>

theorem wrap_prepends_action:
  "fst (wrap f toolname tags file rq rs ros reqs st) = length (heap st)
   \<and> tool_actions (snd (wrap f toolname tags file rq rs ros reqs st)) toolname
       = fst (wrap f toolname tags file rq rs ros reqs st) # tool_actions st toolname
   \<and> a_name (heap (snd (wrap f toolname tags file rq rs ros reqs st))
               ! fst (wrap f toolname tags file rq rs ros reqs st)) = entry_name f
   \<and> (\<forall>a < length (heap st).
         a_name (heap (snd (wrap f toolname tags file rq rs ros reqs st)) ! a)
           = a_name (heap st ! a))"
proof -
  have 1: "fst (wrap f toolname tags file rq rs ros reqs st) = length (heap st)"
    by (simp add: wrap_def Let_def case_prod_beta)
  have 2: "tool_actions (snd (wrap f toolname tags file rq rs ros reqs st)) toolname
       = length (heap st) # tool_actions st toolname"
    by (simp add: wrap_def tool_actions_def Let_def update_conv' case_prod_beta
          t_actions_create_tool_class)
  show ?thesis
    by (simp add: 1 2 heap_wrap create_tool_class_name nth_append)
qed

theorem wrap_prepends_action_witness:
  "tool_actions
     (snd (wrap (Original (binop ''sub'')) ''math'' [] ''tools.py'' (Declared (Raw int_type))
             (Declared (Raw int_type)) False None math_state1)) ''math'' = [1, 0]"
  using wrap_prepends_action [of "Original (binop ''sub'')" "''math''" "[]" "''tools.py''"
      "Declared (Raw int_type)" "Declared (Raw int_type)" False None math_state1]
  by (simp add: math_state1_facts)

text \<open>
  C2, evaluated where the code departs from it. \<open>add\<close> and then \<open>sub\<close> are
  registered under the tool \<open>math\<close>. After the first registration the enum of
  \<open>add\<close> is \<open>MATH_ADD\<close>. The second registration makes a new tool class over
  \<open>[sub, add]\<close>, and the metaclass puts the tool's enum in front of the enum of every
  action of that list again: \<open>add\<close>, still reachable from the registry, now has the
  enum \<open>MATH_MATH_ADD\<close>.
\<close>

theorem enum_prefixed_twice:
  "map_sum (\<lambda>e. ()) fst
     (action_decorator sample_pydantic ''math'' False None None (binop ''add'') ''tools.py''
        empty_state) = Inr 0
   \<and> map_sum (\<lambda>e. ()) fst
     (action_decorator sample_pydantic ''math'' False None None (binop ''sub'') ''tools.py''
        math_state1) = Inr 1
   \<and> a_enum (heap math_state1 ! 0) = ''MATH_ADD''
   \<and> tool_actions math_state2 ''math'' = [1, 0]
   \<and> map (\<lambda>a. a_name (heap math_state2 ! a)) (tool_actions math_state2 ''math'')
       = [''sub'', ''add'']
   \<and> map (\<lambda>a. a_enum (heap math_state2 ! a)) (tool_actions math_state2 ''math'')
       = [''MATH_SUB'', ''MATH_MATH_ADD'']
   \<and> map fst (runtime_actions math_state2) = [''MATH_ADD'', ''MATH_SUB'']"
  by code_simp


subsection \<open>Argument specifications\<close>

lemma wf_signature_return:
  assumes "wf_signature f"
  shows "''return'' \<notin> p_name ` set (c_params f)"
  using assms by (simp add: wf_signature_def)

lemma notin_image_neq: "x \<notin> g ` S \<Longrightarrow> p \<in> S \<Longrightarrow> g p \<noteq> x"
  by blast

lemma update_fresh: "k \<notin> fst ` set al \<Longrightarrow> AList.update k v al = al @ [(k, v)]"
  by (induction al) auto

lemma fst_annotation_items: "fst ` set (annotation_items ps) \<subseteq> p_name ` set ps"
  by (auto simp: annotation_items_def map_filter_def)

lemma annotation_items_Cons:
  "annotation_items (p # ps) =
     (case p_annotation p of None \<Rightarrow> [] | Some a \<Rightarrow> [(p_name p, a)]) @ annotation_items ps"
  by (simp add: annotation_items_def map_filter_def split: option.splits)

lemma param_annotations_eq:
  "distinct (map p_name ps) \<Longrightarrow> p_name ` set ps \<inter> fst ` set d = {}
   \<Longrightarrow> param_annotations ps d = d @ annotation_items ps"
proof (induction ps arbitrary: d)
  case Nil
  then show ?case by (simp add: annotation_items_def map_filter_def)
next
  case (Cons p ps)
  show ?case
  proof (cases "p_annotation p")
    case None
    with Cons show ?thesis by (simp add: annotation_items_Cons)
  next
    case (Some a)
    have fresh: "p_name p \<notin> fst ` set d" using Cons.prems(2) by auto
    have "p_name ` set ps \<inter> fst ` set (d @ [(p_name p, a)]) = {}"
      using Cons.prems by auto
    with Cons Some fresh show ?thesis
      by (simp add: annotation_items_Cons update_fresh)
  qed
qed

lemma annotations_getfullargspec:
  assumes "wf_signature f"
  shows "annotations (getfullargspec f) = return_item f @ annotation_items (c_params f)"
proof -
  have "''return'' \<notin> p_name ` set (c_params f)"
    using assms by (rule wf_signature_return)
  then have "p_name ` set (c_params f) \<inter> fst ` set (return_item f) = {}"
    by (cases "c_return f") (simp_all add: return_item_def)
  then show ?thesis
    using assms param_annotations_eq [of "c_params f" "return_item f"]
    by (simp add: getfullargspec_def wf_signature_def return_item_def Let_def)
qed

lemma distinct_annotation_items:
  "distinct (map p_name ps) \<Longrightarrow> distinct (map fst (annotation_items ps))"
proof (induction ps)
  case Nil
  then show ?case by (simp add: annotation_items_def map_filter_def)
next
  case (Cons p ps)
  then show ?case
    using fst_annotation_items [of ps]
    by (auto simp: annotation_items_Cons split: option.splits)
qed

lemma distinct_annotations:
  assumes "wf_signature f"
  shows "distinct (map fst (annotations (getfullargspec f)))"
  using assms distinct_annotation_items [of "c_params f"] fst_annotation_items [of "c_params f"]
  by (auto simp: annotations_getfullargspec wf_signature_def return_item_def split: option.splits)

lemma map_of_annotation_items:
  "distinct (map p_name ps) \<Longrightarrow> p \<in> set ps
   \<Longrightarrow> map_of (annotation_items ps) (p_name p) = p_annotation p"
proof (induction ps)
  case Nil
  then show ?case by simp
next
  case (Cons q ps)
  show ?case
  proof (cases "p = q")
    case True
    have "p_name q \<notin> fst ` set (annotation_items ps)"
      using Cons.prems(1) fst_annotation_items [of ps] by auto
    then have "map_of (annotation_items ps) (p_name q) = None"
      by (simp add: map_of_eq_None_iff)
    with True show ?thesis
      by (simp add: annotation_items_Cons split: option.splits)
  next
    case False
    with Cons have "p \<in> set ps" "p_name q \<noteq> p_name p" by auto
    with Cons show ?thesis
      by (simp add: annotation_items_Cons split: option.splits)
  qed
qed

lemma map_of_annotations_param:
  assumes "wf_signature f" "p \<in> set (c_params f)"
  shows "map_of (annotations (getfullargspec f)) (p_name p) = p_annotation p"
proof -
  have "p_name p \<noteq> ''return''"
    using notin_image_neq [OF wf_signature_return [OF assms(1)] assms(2)] .
  then have "map_of (return_item f) (p_name p) = None"
    by (simp add: return_item_def split: option.splits)
  then show ?thesis
    using assms map_of_annotation_items [of "c_params f" p]
    by (simp add: annotations_getfullargspec wf_signature_def map_add_def)
qed

lemma map_of_annotations_return:
  assumes "wf_signature f"
  shows "map_of (annotations (getfullargspec f)) ''return'' = c_return f"
proof -
  have "''return'' \<notin> fst ` set (annotation_items (c_params f))"
    using wf_signature_return [OF assms] fst_annotation_items [of "c_params f"] by blast
  then have "map_of (annotation_items (c_params f)) ''return'' = None"
    by (simp add: map_of_eq_None_iff)
  then show ?thesis
    using assms
    by (simp add: annotations_getfullargspec return_item_def map_add_def split: option.splits)
qed

lemma args_getfullargspec:
  "p \<in> set (c_params f) \<Longrightarrow> is_positional p \<Longrightarrow> p_name p \<in> set (args (getfullargspec f))"
  by (auto simp: getfullargspec_def is_positional_def Let_def)

text \<open>
  C4. A callable with a parameter \<open>request_data\<close> and a return annotation takes the
  simple path. When both annotations are validated model types, \<open>_parse_schemas\<close>
  returns the callable itself, the two annotation objects themselves and the
  \<open>runs_on_shell\<close> it was given. When one of them is not, it raises: \<open>ValueError\<close>
  for a class that is not a model, \<open>TypeError\<close> (from \<open>issubclass\<close>) for an
  annotation that is not a class.
\<close>

theorem parse_schemas_simple:
  assumes "wf_signature f" 
    and "p \<in> set (c_params f)" and "p_name p = ''request_data''" and "is_positional p"
    and "p_annotation p = Some rq"
    and "c_return f = Some rt"
  shows "(is_validated_model rq \<and> is_validated_model rt \<longrightarrow>
            parse_schemas lib f runs_on_shell
              = Inr (Original f, Declared rq, Declared rt, runs_on_shell))
       \<and> (\<not> is_validated_model rq \<or> \<not> is_validated_model rt \<longrightarrow>
            (\<exists>m. parse_schemas lib f runs_on_shell = Inl (ValueError m)
                \<or> parse_schemas lib f runs_on_shell = Inl (TypeError m)))"
proof -
  have a: "''request_data'' \<in> set (args (getfullargspec f))"
    using args_getfullargspec [OF assms(2,4)] assms(3) by simp
  have b: "map_of (annotations (getfullargspec f)) ''request_data'' = Some rq"
    using map_of_annotations_param [OF assms(1,2)] assms(3,5) by simp
  have c: "map_of (annotations (getfullargspec f)) ''return'' = Some rt"
    using map_of_annotations_return [OF assms(1)] assms(6) by simp
  show ?thesis
    using a b c
    by (auto simp: parse_schemas_def is_simple_action_def is_validated_model_def Let_def
          issubclass_BaseModel_def
        split: sum.splits bool.splits annotation.splits pytype.splits)
qed

theorem parse_schemas_simple_witness:
  "parse_schemas sample_pydantic run_action False =
     Inr (Original run_action, Declared (Raw (PyClass 10 ''RunRequest'' True)),
          Declared (Raw (PyClass 11 ''RunResponse'' True)), False)"
proof -
  have w: "wf_signature run_action"
    by (simp add: wf_signature_def run_action_def is_positional_def)
  have p: "\<lparr>p_name = ''request_data'', p_kind = POSITIONAL_OR_KEYWORD,
            p_annotation = Some (Raw (PyClass 10 ''RunRequest'' True)), p_default = None\<rparr>
           \<in> set (c_params run_action)"
    by (simp add: run_action_def)
  have m: "is_validated_model (Raw (PyClass 10 ''RunRequest'' True))"
          "is_validated_model (Raw (PyClass 11 ''RunResponse'' True))"
    by (simp_all add: is_validated_model_def issubclass_BaseModel_def)
  show ?thesis
    using parse_schemas_simple [OF w p, of "Raw (PyClass 10 ''RunRequest'' True)"
        "Raw (PyClass 11 ''RunResponse'' True)" sample_pydantic False] m
    by (simp add: is_positional_def run_action_def)
qed

subsection \<open>The signature path\<close>

lemma store_field_shell:
  "store_field returns arg parsed st = Inr st1 \<Longrightarrow> shell_argument st1 = shell_argument st"
  by (auto simp: store_field_def Let_def ns_set_def split: prod.splits if_splits sum.splits)

lemma store_field_request:
  "store_field returns arg (annottype, description, dflt) st = Inr st1 \<Longrightarrow>
     ns_fields (request_schema st1) =
       (if arg = ''return'' then ns_fields (request_schema st)
        else AList.update arg
               \<lparr>fi_default = dflt, fi_description = Some description, fi_title = None\<rparr>
               (ns_fields (request_schema st)))"
  by (auto simp: store_field_def Let_def ns_set_def split: if_splits sum.splits option.splits)

lemma build_loop_shell:
  "build_loop dm pd r items st = Inr st' \<Longrightarrow>
     shell_argument st' =
       (if shell_items items = [] then shell_argument st else Some (last (shell_items items)))"
proof (induction items arbitrary: st)
  case Nil
  then show ?case by (simp add: shell_items_def)
next
  case (Cons item items)
  obtain arg annot where item: "item = (arg, annot)" by (cases item)
  show ?case
  proof (cases annot)
    case Shell
    with Cons.prems item
    have "build_loop dm pd r items (st\<lparr>shell_argument := Some arg\<rparr>) = Inr st'" by simp
    from Cons.IH [OF this] show ?thesis
      by (simp add: item Shell shell_items_def)
  next
    case (Annotated ty specs)
    with Cons.prems item obtain parsed st1 where
      s: "store_field r arg parsed st = Inr st1" and l: "build_loop dm pd r items st1 = Inr st'"
      by (auto split: sum.splits)
    from Cons.IH [OF l] store_field_shell [OF s] show ?thesis
      by (simp add: item Annotated shell_items_def)
  next
    case (Raw ty)
    with Cons.prems item obtain parsed st1 where
      s: "store_field r arg parsed st = Inr st1" and l: "build_loop dm pd r items st1 = Inr st'"
      by (auto split: sum.splits)
    from Cons.IH [OF l] store_field_shell [OF s] show ?thesis
      by (simp add: item Raw shell_items_def)
  qed
qed

lemma build_loop_request_names:
  "build_loop dm pd r items st = Inr st' \<Longrightarrow> distinct (map fst items)
   \<Longrightarrow> fst ` set items \<inter> fst ` set (ns_fields (request_schema st)) = {}
   \<Longrightarrow> map fst (ns_fields (request_schema st'))
         = map fst (ns_fields (request_schema st)) @ request_items items"
proof (induction items arbitrary: st)
  case Nil
  then show ?case by (simp add: request_items_def)
next
  case (Cons item items)
  obtain k annot where item: "item = (k, annot)" by (cases item)
  have dist: "distinct (map fst items)" and knew: "k \<notin> fst ` set items"
    using Cons.prems(2) by (auto simp: item)
  have fresh: "k \<notin> fst ` set (ns_fields (request_schema st))"
    using Cons.prems(3) by (auto simp: item)
  have disj: "fst ` set items \<inter> fst ` set (ns_fields (request_schema st)) = {}"
    using Cons.prems(3) by (auto simp: item)
  show ?case
  proof (cases "annot = Shell")
    case True
    with Cons.prems item
    have l: "build_loop dm pd r items (st\<lparr>shell_argument := Some k\<rparr>) = Inr st'" by simp
    have "fst ` set items
            \<inter> fst ` set (ns_fields (request_schema (st\<lparr>shell_argument := Some k\<rparr>))) = {}"
      using disj by simp
    from Cons.IH [OF l dist this] show ?thesis
      by (simp add: item True request_items_def)
  next
    case False
    with Cons.prems(1) item obtain parsed st1 where
      s: "store_field r k parsed st = Inr st1" and l: "build_loop dm pd r items st1 = Inr st'"
      by (cases annot) (auto split: sum.splits)
    obtain ty d v where parsed: "parsed = (ty, d, v)" by (cases parsed)
    have st1: "map fst (ns_fields (request_schema st1))
                 = map fst (ns_fields (request_schema st)) @ (if k = ''return'' then [] else [k])"
      using store_field_request [OF s [unfolded parsed]] by (simp add: update_fresh [OF fresh])
    have "set (map fst (ns_fields (request_schema st1)))
                 \<subseteq> insert k (set (map fst (ns_fields (request_schema st))))"
      unfolding st1 by auto
    then have sub: "fst ` set (ns_fields (request_schema st1))
                 \<subseteq> insert k (fst ` set (ns_fields (request_schema st)))"
      by simp
    have "fst ` set items \<inter> fst ` set (ns_fields (request_schema st1)) = {}"
      using sub disj knew by blast
    from Cons.IH [OF l dist this] show ?thesis
      using False by (simp add: item st1 request_items_def)
  qed
qed

lemma request_items_annotation_items:
  "''return'' \<notin> p_name ` set ps \<Longrightarrow>
     request_items (annotation_items ps)
       = map p_name (filter (\<lambda>q. p_annotation q \<noteq> None \<and> p_annotation q \<noteq> Some Shell) ps)"
proof (induction ps)
  case Nil
  then show ?case by (simp add: annotation_items_def map_filter_def request_items_def)
next
  case (Cons q ps)
  have ne: "p_name q \<noteq> ''return''" using Cons.prems by auto
  have "request_items (annotation_items (q # ps))
          = request_items (case p_annotation q of None \<Rightarrow> [] | Some a \<Rightarrow> [(p_name q, a)])
            @ request_items (annotation_items ps)"
    by (simp add: annotation_items_Cons request_items_def)
  moreover have "request_items (case p_annotation q of None \<Rightarrow> [] | Some a \<Rightarrow> [(p_name q, a)])
          = (if p_annotation q \<noteq> None \<and> p_annotation q \<noteq> Some Shell then [p_name q] else [])"
    using ne by (cases "p_annotation q") (simp_all add: request_items_def)
  ultimately show ?case using Cons by simp
qed

lemma request_items_annotations:
  assumes "wf_signature f"
  shows "request_items (annotations (getfullargspec f)) = map p_name (request_params f)"
proof -
  have r: "''return'' \<notin> p_name ` set (c_params f)"
    using assms by (rule wf_signature_return)
  have "request_items (return_item f) = []"
    by (cases "c_return f") (simp_all add: return_item_def request_items_def)
  then have "request_items (annotations (getfullargspec f))
               = request_items (annotation_items (c_params f))"
    by (simp add: annotations_getfullargspec [OF assms] request_items_def)
  with request_items_annotation_items [OF r] show ?thesis
    by (simp add: request_params_def)
qed

lemma library_exn_not_ctx: "library_exn r \<noteq> InvalidContextArgument m"
  by (cases r) (simp add: library_exn_def)

lemma create_type_Inr:
  "create_type lib name ns = Inr md \<Longrightarrow>
     md = \<lparr>m_name = name, m_fields = ns_fields ns, m_annotations = ns_annotations ns\<rparr>"
  by (auto simp: create_type_def split: option.splits)

lemma create_type_not_ctx: "create_type lib name ns \<noteq> Inl (InvalidContextArgument m)"
  using library_exn_not_ctx by (auto simp: create_type_def split: option.splits)

lemma build_executable_from_args_Inr:
  assumes "build_executable_from_args lib f = Inr (entry, rqs, rs, b)"
  obtains header pd r st' where
    "parse_docstring (c_doc f) = Inr (header, pd, r)"
    "build_loop (defaults_dict (getfullargspec f)) pd r (annotations (getfullargspec f))
       initial_build_state = Inr st'"
    "entry = Execute \<lparr>x_f = f, x_shell_argument = shell_argument st', x_returns = r,
                       x_response_schema =
                         \<lparr>m_name = camelize (c_name f) @ ''Response'',
                          m_fields = ns_fields (response_schema st'),
                          m_annotations = ns_annotations (response_schema st')\<rparr>,
                       x_doc = header, x_name = c_name f\<rparr>"
    "rqs = Created \<lparr>m_name = camelize (c_name f) @ ''Request'',
                    m_fields = ns_fields (request_schema st'),
                    m_annotations = ns_annotations (request_schema st')\<rparr>"
    "rs = Created \<lparr>m_name = camelize (c_name f) @ ''Response'',
                   m_fields = ns_fields (response_schema st'),
                   m_annotations = ns_annotations (response_schema st')\<rparr>"
    "b = (shell_argument st' \<noteq> None)"
proof -
  from assms obtain header pd r where
    d: "parse_docstring (c_doc f) = Inr (header, pd, r)"
    by (cases "parse_docstring (c_doc f)")
       (auto simp: build_executable_from_args_def Let_def)
  from assms d obtain st' where
    l: "build_loop (defaults_dict (getfullargspec f)) pd r (annotations (getfullargspec f))
       initial_build_state = Inr st'"
    by (cases "build_loop (defaults_dict (getfullargspec f)) pd r
                 (annotations (getfullargspec f)) initial_build_state")
       (auto simp: build_executable_from_args_def Let_def initial_build_state_def)
  from assms d l obtain rq where
    rq: "create_type lib (camelize (c_name f) @ ''Request'') (request_schema st') = Inr rq"
    by (cases "create_type lib (camelize (c_name f) @ ''Request'') (request_schema st')")
       (auto simp: build_executable_from_args_def Let_def initial_build_state_def)
  from assms d l rq obtain rp where
    rp: "create_type lib (camelize (c_name f) @ ''Response'') (response_schema st') = Inr rp"
    by (cases "create_type lib (camelize (c_name f) @ ''Response'') (response_schema st')")
       (auto simp: build_executable_from_args_def Let_def initial_build_state_def)
  from assms d l rq rp
  have res: "entry = Execute \<lparr>x_f = f, x_shell_argument = shell_argument st', x_returns = r,
                       x_response_schema = rp, x_doc = header, x_name = c_name f\<rparr>"
     "rqs = Created rq" "rs = Created rp" "b = (shell_argument st' \<noteq> None)"
    by (simp_all add: build_executable_from_args_def Let_def initial_build_state_def)
  show thesis
    using that [OF d l] res create_type_Inr [OF rq] create_type_Inr [OF rp] by simp
qed

lemma annotation_items_Nil: "annotation_items [] = []"
  by (simp add: annotation_items_def map_filter_def)

lemma shell_items_annotation_items:
  "shell_items (annotation_items ps) = map p_name (filter (\<lambda>p. p_annotation p = Some Shell) ps)"
  by (induction ps)
     (auto simp: annotation_items_Nil annotation_items_Cons shell_items_def split: option.splits)

lemma shell_items_append: "shell_items (xs @ ys) = shell_items xs @ shell_items ys"
  by (simp add: shell_items_def)

lemma last_shell_items:
  assumes "wf_signature f" "shell_params f \<noteq> []"
  shows "shell_items (annotations (getfullargspec f)) \<noteq> []"
    and "last (shell_items (annotations (getfullargspec f))) = p_name (last (shell_params f))"
  using assms
  by (simp_all add: annotations_getfullargspec shell_items_append shell_items_annotation_items
        shell_params_def last_map)

lemma build_shell_argument:
  assumes "wf_signature f" "shell_params f \<noteq> []"
    and "build_executable_from_args lib f = Inr (entry, rqs, rs, b)"
  shows "b \<and> (\<exists>x rq. entry = Execute x \<and> rqs = Created rq \<and> rs = Created (x_response_schema x)
               \<and> x_f x = f
               \<and> x_shell_argument x = Some (p_name (last (shell_params f))))"
proof -
  from assms(3) obtain header pd r st' where
    l: "build_loop (defaults_dict (getfullargspec f)) pd r (annotations (getfullargspec f))
       initial_build_state = Inr st'"
    and e: "entry = Execute \<lparr>x_f = f, x_shell_argument = shell_argument st', x_returns = r,
                       x_response_schema =
                         \<lparr>m_name = camelize (c_name f) @ ''Response'',
                          m_fields = ns_fields (response_schema st'),
                          m_annotations = ns_annotations (response_schema st')\<rparr>,
                       x_doc = header, x_name = c_name f\<rparr>"
    and rq: "rqs = Created \<lparr>m_name = camelize (c_name f) @ ''Request'',
                    m_fields = ns_fields (request_schema st'),
                    m_annotations = ns_annotations (request_schema st')\<rparr>"
    and rs: "rs = Created \<lparr>m_name = camelize (c_name f) @ ''Response'',
                   m_fields = ns_fields (response_schema st'),
                   m_annotations = ns_annotations (response_schema st')\<rparr>"
    and b: "b = (shell_argument st' \<noteq> None)"
    by (rule build_executable_from_args_Inr)
  have "shell_argument st' = Some (p_name (last (shell_params f)))"
    using build_loop_shell [OF l] last_shell_items [OF assms(1,2)] by simp
  then show ?thesis using e rq rs b by simp
qed

lemma build_request_names:
  assumes wf: "wf_signature f"
    and "build_executable_from_args lib f = Inr (entry, Created rq, rs, b)"
  shows "map fst (m_fields rq) = map p_name (request_params f)"
proof -
  from assms(2) obtain header pd r st' where
    l: "build_loop (defaults_dict (getfullargspec f)) pd r (annotations (getfullargspec f))
       initial_build_state = Inr st'"
    and rq: "Created rq = Created \<lparr>m_name = camelize (c_name f) @ ''Request'',
                    m_fields = ns_fields (request_schema st'),
                    m_annotations = ns_annotations (request_schema st')\<rparr>"
    by (rule build_executable_from_args_Inr)
  have "map fst (ns_fields (request_schema st'))
          = map fst (ns_fields (request_schema initial_build_state))
            @ request_items (annotations (getfullargspec f))"
    by (rule build_loop_request_names [OF l distinct_annotations [OF wf]])
       (simp add: initial_build_state_def empty_namespace_def)
  then show ?thesis
    using rq request_items_annotations [OF wf]
    by (simp add: initial_build_state_def empty_namespace_def)
qed

lemma shell_not_request_param:
  assumes wf: "wf_signature f" and p: "p \<in> set (shell_params f)"
  shows "p_name p \<notin> set (map p_name (request_params f))"
proof
  assume "p_name p \<in> set (map p_name (request_params f))"
  then obtain q where q: "q \<in> set (c_params f)" "p_annotation q \<noteq> Some Shell"
    "p_name q = p_name p"
    by (auto simp: request_params_def)
  have pm: "p \<in> set (c_params f)" "p_annotation p = Some Shell"
    using p by (simp_all add: shell_params_def)
  have "distinct (map p_name (c_params f))" using wf by (simp add: wf_signature_def)
  then have "q = p" using q(1,3) pm(1) by (simp add: distinct_map inj_on_def)
  with q(2) pm(2) show False by simp
qed

lemma build_excludes_shell:
  assumes wf: "wf_signature f" and p: "p \<in> set (shell_params f)"
    and "build_executable_from_args lib f = Inr (entry, Created rq, rs, b)"
  shows "p_name p \<notin> fst ` set (m_fields rq)"
  using shell_not_request_param [OF wf p] build_request_names [OF wf assms(3)]
  by (metis image_set)

lemma unpack2_not_ctx: "unpack2 parts \<noteq> Inl (InvalidContextArgument m)"
  by (auto simp: unpack2_def split: list.splits)

lemma parse_descriptions_not_ctx:
  "parse_descriptions ds params returns \<noteq> Inl (InvalidContextArgument m)"
proof (induction ds arbitrary: params returns)
  case Nil
  then show ?case by simp
next
  case (Cons d ds)
  show ?case
    using Cons.IH unpack2_not_ctx
    by (auto split: sum.splits prod.splits if_splits)
qed

lemma parse_docstring_not_ctx: "parse_docstring d \<noteq> Inl (InvalidContextArgument m)"
  using parse_descriptions_not_ctx
  by (auto simp: parse_docstring_def split: option.splits list.splits sum.splits prod.splits)

lemma store_field_not_ctx: "store_field r arg parsed st \<noteq> Inl (InvalidContextArgument m)"
  by (auto simp: store_field_def ns_set_def Let_def split: prod.splits sum.splits if_splits)

lemma parse_annotated_type_not_ctx:
  "parse_annotated_type arg ty specs \<noteq> Inl (InvalidContextArgument m)"
  by (auto simp: parse_annotated_type_def split: list.splits annotspec.splits pyval.splits)

lemma parse_plain_not_ctx: "parse_plain dm pd r arg ty \<noteq> Inl (InvalidContextArgument m)"
  by (auto simp: parse_plain_def Let_def split: prod.splits)

lemma build_loop_not_ctx: "build_loop dm pd r items st \<noteq> Inl (InvalidContextArgument m)"
proof (induction items arbitrary: st)
  case Nil
  then show ?case by simp
next
  case (Cons item items)
  obtain arg annot where item: "item = (arg, annot)" by (cases item)
  show ?case
    using Cons.IH store_field_not_ctx parse_annotated_type_not_ctx parse_plain_not_ctx
    by (cases annot) (auto simp: item split: sum.splits)
qed

lemma build_not_ctx: "build_executable_from_args lib f \<noteq> Inl (InvalidContextArgument m)"
  using parse_docstring_not_ctx build_loop_not_ctx create_type_not_ctx
  by (auto simp: build_executable_from_args_def Let_def split: sum.splits prod.splits)

lemma issubclass_not_ctx: "issubclass_BaseModel a \<noteq> Inl (InvalidContextArgument m)"
  by (auto simp: issubclass_BaseModel_def split: annotation.splits pytype.splits)

lemma is_simple_action_not_ctx: "is_simple_action argspec \<noteq> Inl (InvalidContextArgument m)"
  using issubclass_not_ctx
  by (auto simp: is_simple_action_def split: option.splits sum.splits bool.splits)

lemma parse_schemas_not_ctx: "parse_schemas lib f ros \<noteq> Inl (InvalidContextArgument m)"
  using is_simple_action_not_ctx [of "getfullargspec f" m] build_not_ctx [of lib f m]
  by (auto simp: parse_schemas_def Let_def split: sum.splits bool.splits)

lemma parse_schemas_signature_path:
  "is_simple_action (getfullargspec f) = Inr False \<Longrightarrow>
     parse_schemas lib f ros = build_executable_from_args lib f"
  by (simp add: parse_schemas_def Let_def)

text \<open>
  C7 (as the code has it). Neither \<open>_parse_schemas\<close> nor the decorator ever raises
  \<open>InvalidContextArgument\<close>. When a callable that declares two or more
  \<open>Shell\<close> arguments is compiled on the signature path and the compilation returns,
  \<open>runs_on_shell\<close> is true, every \<open>Shell\<close> argument is left out of the request
  model, and the one remembered for the call is the last of them.
\<close>

theorem parse_schemas_several_shells:
  "parse_schemas lib f runs_on_shell \<noteq> Inl (InvalidContextArgument m)
   \<and> action_decorator lib toolname runs_on_shell tags requires f file st
       \<noteq> Inl (InvalidContextArgument m)
   \<and> (wf_signature f \<and> 2 \<le> length (shell_params f)
        \<and> is_simple_action (getfullargspec f) = Inr False
        \<and> parse_schemas lib f runs_on_shell = Inr (entry, rqs, rs, b) \<longrightarrow>
      b \<and> (\<exists>x rq. entry = Execute x \<and> rqs = Created rq
               \<and> x_shell_argument x = Some (p_name (last (shell_params f)))
               \<and> (\<forall>p \<in> set (shell_params f). p_name p \<notin> fst ` set (m_fields rq))))"
proof (intro conjI impI)
  show "parse_schemas lib f runs_on_shell \<noteq> Inl (InvalidContextArgument m)"
    by (rule parse_schemas_not_ctx)
next
  show "action_decorator lib toolname runs_on_shell tags requires f file st
          \<noteq> Inl (InvalidContextArgument m)"
    using parse_schemas_not_ctx [of lib f runs_on_shell m]
    by (auto simp: action_decorator_def split: sum.splits prod.splits)
next
  assume a: "wf_signature f \<and> 2 \<le> length (shell_params f)
        \<and> is_simple_action (getfullargspec f) = Inr False
        \<and> parse_schemas lib f runs_on_shell = Inr (entry, rqs, rs, b)"
  then have ne: "shell_params f \<noteq> []" by auto
  have build: "build_executable_from_args lib f = Inr (entry, rqs, rs, b)"
    using a parse_schemas_signature_path [of f lib runs_on_shell] by simp
  from build_shell_argument [OF _ ne build] a
  show "b" by blast
next
  assume a: "wf_signature f \<and> 2 \<le> length (shell_params f)
        \<and> is_simple_action (getfullargspec f) = Inr False
        \<and> parse_schemas lib f runs_on_shell = Inr (entry, rqs, rs, b)"
  then have ne: "shell_params f \<noteq> []" and wf: "wf_signature f" by auto
  have build: "build_executable_from_args lib f = Inr (entry, rqs, rs, b)"
    using a parse_schemas_signature_path [of f lib runs_on_shell] by simp
  from build_shell_argument [OF wf ne build]
  obtain x rq where x: "entry = Execute x" "rqs = Created rq"
    "x_shell_argument x = Some (p_name (last (shell_params f)))" by blast
  have "\<forall>p \<in> set (shell_params f). p_name p \<notin> fst ` set (m_fields rq)"
    using build_excludes_shell [OF wf] build x(2) by blast
  with x show "\<exists>x rq. entry = Execute x \<and> rqs = Created rq
               \<and> x_shell_argument x = Some (p_name (last (shell_params f)))
               \<and> (\<forall>p \<in> set (shell_params f). p_name p \<notin> fst ` set (m_fields rq))"
    by blast
qed


subsection \<open>Compilations of the sample callables\<close>

lemma wf_copy: "wf_signature copy_between"
  by (simp add: wf_signature_def copy_between_def is_positional_def)


lemma copy_returns: "\<not> isl (parse_schemas sample_pydantic copy_between False)"
  by code_simp

lemma copy_signature_path: "is_simple_action (getfullargspec copy_between) = Inr False"
  by code_simp

theorem parse_schemas_several_shells_witness:
  "\<exists>x rq rs. parse_schemas sample_pydantic copy_between False
                = Inr (Execute x, Created rq, rs, True)
      \<and> x_shell_argument x = Some ''dst''
      \<and> ''src'' \<notin> fst ` set (m_fields rq) \<and> ''dst'' \<notin> fst ` set (m_fields rq)"
proof -
  from copy_returns obtain entry rqs rs b where
    build: "parse_schemas sample_pydantic copy_between False = Inr (entry, rqs, rs, b)"
    by (cases "parse_schemas sample_pydantic copy_between False") auto
  have sp: "shell_params copy_between =
      [\<lparr>p_name = ''src'', p_kind = POSITIONAL_OR_KEYWORD, p_annotation = Some Shell,
          p_default = None\<rparr>,
         \<lparr>p_name = ''dst'', p_kind = POSITIONAL_OR_KEYWORD, p_annotation = Some Shell,
          p_default = None\<rparr>]"
    by (simp add: shell_params_def copy_between_def)
  have two: "2 \<le> length (shell_params copy_between)" by (simp add: sp)
  from parse_schemas_several_shells
         [of sample_pydantic copy_between False "[]" "[]" None None "[]" empty_state
             entry rqs rs b]
       wf_copy two copy_signature_path build
  show ?thesis by (auto simp: sp)
qed

text \<open>
  C7 as stated fails: \<open>copy\<close> declares two \<open>Shell\<close> arguments and compiles. No
  error is raised; \<open>dst\<close> is the argument kept for the call.
\<close>

theorem copy_compiles_counterexample:
  "map_sum id (\<lambda>(e, rq, rs, b). (case e of Execute x \<Rightarrow> x_shell_argument x | Original g \<Rightarrow> None, rq, b))
     (parse_schemas sample_pydantic copy_between False)
   = Inr (Some ''dst'',
          Created \<lparr>m_name = ''CopyRequest'',
                   m_fields = [(''path'', \<lparr>fi_default = PEllipsis, fi_description = Some ''Path'',
                                           fi_title = None\<rparr>)],
                   m_annotations = [(''path'', PyClass 2 ''str'' False)]\<rparr>,
          True)"
  by code_simp







text \<open>
  C3, evaluated where the code departs from it. The defaults are matched from the end
  against the names of \<open>argspec.annotations\<close> instead of the positional arguments.
  For \<open>clamp\<close>, whose arguments are all annotated, the default 0 of \<open>lo\<close> goes to
  the keyword-only \<open>hi\<close>: \<open>lo\<close> becomes a required field and \<open>hi\<close> an optional
  one with the default 0. For \<open>scale\<close>, whose argument \<open>b\<close> has a default and no
  annotation, the default 5 of \<open>b\<close> goes to \<open>a\<close>, which declares none.
\<close>

theorem defaults_given_to_other_arguments:
  "map_sum id (\<lambda>(e, rq, rs, b).
       (case rq of Created m \<Rightarrow> map (\<lambda>(k, fi). (k, fi_default fi, is_required fi)) (m_fields m)
        | Declared a \<Rightarrow> []))
     (parse_schemas sample_pydantic clamp False)
   = Inr [(''lo'', PEllipsis, True), (''hi'', PInt 0, False)]
   \<and> map_sum id (\<lambda>(e, rq, rs, b).
       (case rq of Created m \<Rightarrow> map (\<lambda>(k, fi). (k, fi_default fi, is_required fi)) (m_fields m)
        | Declared a \<Rightarrow> []))
     (parse_schemas sample_pydantic scale False)
   = Inr [(''a'', PInt 5, False)]"
  by code_simp

subsection \<open>Schema synthesis\<close>


lemma fallback_object:
  "map_of fallback_values ''object'' = Some (PDict [])"
  "map_of schema_type_python_type_dict ''object'' = None"
  by (simp_all add: fallback_values_def schema_type_python_type_dict_def)



lemma synthesize_fields_primitive:
  "s_type p = Some (TypeName pty) \<Longrightarrow> s_title p = Some t
   \<Longrightarrow> map_of fallback_values pty = Some fb
   \<Longrightarrow> map_of schema_type_python_type_dict pty = Some sty
   \<Longrightarrow> synthesize_fields cm req ((n, p) # rest) acc =
         synthesize_fields cm req rest
           (add_field req n p (replace '' '' [] t)
              (case s_default p of None \<Rightarrow> fb | Some d \<Rightarrow> d) sty acc)"
  by simp

lemma synthesize_fields_object:
  "s_type p = Some (TypeName pty) \<Longrightarrow> s_title p = Some t
   \<Longrightarrow> map_of fallback_values pty = Some fb
   \<Longrightarrow> map_of schema_type_python_type_dict pty = None
   \<Longrightarrow> synthesize_fields cm req ((n, p) # rest) acc =
         (case pydantic_model_from_param_schema cm p of
            Inl e \<Rightarrow> Inl e
          | Inr sty \<Rightarrow>
              synthesize_fields cm req rest
                (add_field req n p (replace '' '' [] t)
                   (case s_default p of None \<Rightarrow> fb | Some d \<Rightarrow> d) sty acc))"
  by simp







lemma library_exn_not_unsupported: "library_exn r \<noteq> UnsupportedSchemaType path"
  by (cases r) (simp add: library_exn_def)

lemma create_model_not_unsupported:
  "create_model cm name flds \<noteq> Inl (UnsupportedSchemaType path)"
  using library_exn_not_unsupported
  by (auto simp: create_model_def split: option.splits)

lemma synthesis_not_unsupported:
  "pydantic_model_from_param_schema cm s \<noteq> Inl (UnsupportedSchemaType path)"
  "synthesize_fields cm req ps acc \<noteq> Inl (UnsupportedSchemaType path)"
proof (induction cm s and cm req ps acc
         rule: pydantic_model_from_param_schema_synthesize_fields.induct)
  case (1 cm ttl ty properties required dflt description desc)
  show ?case
  proof (cases ttl)
    case None
    then show ?thesis by simp
  next
    case t: (Some t)
    show ?thesis
    proof (cases properties)
      case None
      with t show ?thesis by simp
    next
      case props: (Some props)
      from "1.IH" [OF t props] create_model_not_unsupported show ?thesis
        by (auto simp: t props split: sum.splits)
    qed
  qed
next
  case (2 cm required_props flds)
  then show ?case by simp
next
  case (3 cm required_props prop_name prop_info rest flds)
  show ?case
  proof (cases "s_type prop_info")
    case None
    then show ?thesis by simp
  next
    case tv: (Some tv)
    show ?thesis
    proof (cases tv)
      case (TypeNames names)
      with tv show ?thesis by (cases "s_title prop_info") simp_all
    next
      case (TypeName pty)
      have pty: "s_type prop_info = Some (TypeName pty)" using tv TypeName by simp
      show ?thesis
      proof (cases "s_title prop_info")
        case None
        with pty show ?thesis by simp
      next
        case t: (Some t)
        show ?thesis
        proof (cases "map_of fallback_values pty")
          case None
          with pty t show ?thesis by simp
        next
          case fb: (Some fb)
          show ?thesis
          proof (cases "map_of schema_type_python_type_dict pty")
            case pt: (Some pt)
            from "3.IH"(3) [OF pty refl t fb pt] show ?thesis
              by (simp only: synthesize_fields_primitive [OF pty t fb pt]) simp
          next
            case pt: None
            show ?thesis
            proof (cases "pydantic_model_from_param_schema cm prop_info")
              case (Inl e')
              with "3.IH"(1) [OF pty refl t fb pt] show ?thesis
                by (simp only: synthesize_fields_object [OF pty t fb pt]) auto
            next
              case (Inr m)
              from "3.IH"(2) [OF pty refl t fb pt Inr] show ?thesis
                by (simp only: synthesize_fields_object [OF pty t fb pt] Inr sum.case) simp
            qed
          qed
        qed
      qed
    qed
  qed
qed

lemma fallback_keys:
  "map_of fallback_values t = Some fb \<Longrightarrow>
     map_of schema_type_python_type_dict t \<noteq> None \<or> t = ''object''"
  by (auto simp: fallback_values_def schema_type_python_type_dict_def split: if_splits)

lemma primitive_keys:
  "map_of schema_type_python_type_dict t = Some pt \<Longrightarrow> t \<noteq> ''object''"
  by (auto simp: schema_type_python_type_dict_def split: if_splits)

lemma supported_not_unsupported:
  "map_of fallback_values t = Some fb \<Longrightarrow> \<not> unsupported_type (TypeName t)"
  using fallback_keys [of t fb] by (simp add: unsupported_type_def)

lemma synthesize_fields_Cons_Inr:
  assumes "synthesize_fields cm req ((n, p) # ps) acc = Inr flds"
  shows "\<exists>t fb. s_type p = Some (TypeName t) \<and> map_of fallback_values t = Some fb
           \<and> (t = ''object'' \<longrightarrow> (\<exists>m. pydantic_model_from_param_schema cm p = Inr m))
           \<and> (\<exists>acc'. synthesize_fields cm req ps acc' = Inr flds)"
proof -
  obtain tv where tv: "s_type p = Some tv"
    using assms by (cases "s_type p") simp_all
  obtain tt where tt: "s_title p = Some tt"
    using assms tv by (cases "s_title p"; cases tv) simp_all
  obtain t where t: "s_type p = Some (TypeName t)"
    using assms tv tt by (cases tv) simp_all
  obtain fb where fb: "map_of fallback_values t = Some fb"
    using assms t tt by (cases "map_of fallback_values t") simp_all
  have "(t = ''object'' \<longrightarrow> (\<exists>m. pydantic_model_from_param_schema cm p = Inr m))
        \<and> (\<exists>acc'. synthesize_fields cm req ps acc' = Inr flds)"
  proof (cases "map_of schema_type_python_type_dict t")
    case (Some pt)
    from assms have "synthesize_fields cm req ps
           (add_field req n p (replace '' '' [] tt)
              (case s_default p of None \<Rightarrow> fb | Some d \<Rightarrow> d) pt acc) = Inr flds"
      by (simp only: synthesize_fields_primitive [OF t tt fb Some])
    with primitive_keys [OF Some] show ?thesis by blast
  next
    case None
    from assms have r: "(case pydantic_model_from_param_schema cm p of
            Inl e \<Rightarrow> Inl e
          | Inr sty \<Rightarrow>
              synthesize_fields cm req ps
                (add_field req n p (replace '' '' [] tt)
                   (case s_default p of None \<Rightarrow> fb | Some d \<Rightarrow> d) sty acc)) = Inr flds"
      by (simp only: synthesize_fields_object [OF t tt fb None])
    then obtain m where m: "pydantic_model_from_param_schema cm p = Inr m"
      by (cases "pydantic_model_from_param_schema cm p") simp_all
    with r show ?thesis by auto
  qed
  with t fb show ?thesis by blast
qed

lemma synthesize_fields_Inr_member:
  "synthesize_fields cm req ps acc = Inr flds \<Longrightarrow> (n, p) \<in> set ps \<Longrightarrow>
     \<exists>t fb. s_type p = Some (TypeName t) \<and> map_of fallback_values t = Some fb
       \<and> (t = ''object'' \<longrightarrow> (\<exists>m. pydantic_model_from_param_schema cm p = Inr m))"
proof (induction ps arbitrary: acc)
  case Nil
  then show ?case by simp
next
  case (Cons np ps)
  obtain n' p' where np: "np = (n', p')" by (cases np)
  have a: "synthesize_fields cm req ((n', p') # ps) acc = Inr flds"
    using Cons.prems(1) np by simp
  from synthesize_fields_Cons_Inr [OF a] obtain t fb acc' where
    h: "s_type p' = Some (TypeName t)" "map_of fallback_values t = Some fb"
       "t = ''object'' \<longrightarrow> (\<exists>m. pydantic_model_from_param_schema cm p' = Inr m)"
    and rest: "synthesize_fields cm req ps acc' = Inr flds"
    by blast
  show ?case
  proof (cases "(n, p) = np")
    case True
    then show ?thesis using h np by auto
  next
    case False
    then have "(n, p) \<in> set ps" using Cons.prems(2) by simp
    from Cons.IH [OF rest this] show ?thesis .
  qed
qed

lemma model_Inr_fields:
  assumes "pydantic_model_from_param_schema cm s = Inr m" "s_properties s = Some props"
  shows "\<exists>req flds. synthesize_fields cm req props [] = Inr flds"
proof (cases s)
  case (Schema ttl ty properties required dflt description desc)
  obtain t where t: "ttl = Some t"
    using assms(1) Schema by (cases ttl) simp_all
  have p: "properties = Some props" using assms(2) Schema by simp
  show ?thesis
    using assms(1) Schema t p
    by (cases "synthesize_fields cm (case required of None \<Rightarrow> [] | Some r \<Rightarrow> r) props []") auto
qed

lemma unsupported_leaf_fails:
  "unsupported_leaf_in s \<Longrightarrow> pydantic_model_from_param_schema cm s \<noteq> Inr m"
proof (induction arbitrary: m rule: unsupported_leaf_in.induct)
  case (direct s props n p tv)
  show ?case
  proof
    assume ok: "pydantic_model_from_param_schema cm s = Inr m"
    from model_Inr_fields [OF ok direct(1)] obtain req flds where
      "synthesize_fields cm req props [] = Inr flds" by blast
    from synthesize_fields_Inr_member [OF this direct(2)] obtain t' fb where
      "s_type p = Some (TypeName t')" "map_of fallback_values t' = Some fb" by blast
    with direct(3,4) supported_not_unsupported [of t' fb] show False by simp
  qed
next
  case (nested s props n p)
  show ?case
  proof
    assume ok: "pydantic_model_from_param_schema cm s = Inr m"
    from model_Inr_fields [OF ok nested(1)] obtain req flds where
      "synthesize_fields cm req props [] = Inr flds" by blast
    from synthesize_fields_Inr_member [OF this nested(2)] nested(3) obtain m' where
      "pydantic_model_from_param_schema cm p = Inr m'" by auto
    with nested.IH [of m'] show False by simp
  qed
qed

lemma signature_parameters_Cons_Inr:
  assumes "signature_parameters cm pe req ((n, p) # ps) = Inr pars"
  shows "\<exists>t fb. s_type p = Some (TypeName t) \<and> map_of fallback_values t = Some fb
           \<and> (t = ''object'' \<longrightarrow> (\<exists>m. pydantic_model_from_param_schema cm p = Inr m))
           \<and> (\<exists>pars'. signature_parameters cm pe req ps = Inr pars')"
proof -
  obtain tv where tv: "s_type p = Some tv"
    using assms by (cases "s_type p") simp_all
  obtain tt where tt: "s_title p = Some tt"
    using assms tv by (cases "s_title p"; cases tv) simp_all
  obtain t where t: "s_type p = Some (TypeName t)"
    using assms tv tt by (cases tv) simp_all
  obtain sty where sty: "(case map_of schema_type_python_type_dict t of
                        Some pt \<Rightarrow> Inr pt
                      | None \<Rightarrow> pydantic_model_from_param_schema cm p) = Inr sty"
    using assms t tt
    by (cases "case map_of schema_type_python_type_dict t of
                        Some pt \<Rightarrow> Inr pt
                      | None \<Rightarrow> pydantic_model_from_param_schema cm p") simp_all
  obtain fb where fb: "map_of fallback_values t = Some fb"
    using assms t tt sty by (cases "map_of fallback_values t") simp_all
  obtain pars' where rest: "signature_parameters cm pe req ps = Inr pars'"
    using assms t tt sty fb
    by (cases "signature_parameters cm pe req ps")
       (auto simp: Let_def split: option.splits)
  have nested: "t = ''object'' \<longrightarrow> (\<exists>m. pydantic_model_from_param_schema cm p = Inr m)"
    using sty fallback_object(2) by auto
  from t fb nested rest show ?thesis by blast
qed

lemma signature_parameters_Inr_member:
  "signature_parameters cm pe req ps = Inr pars \<Longrightarrow> (n, p) \<in> set ps \<Longrightarrow>
     \<exists>t fb. s_type p = Some (TypeName t) \<and> map_of fallback_values t = Some fb
       \<and> (t = ''object'' \<longrightarrow> (\<exists>m. pydantic_model_from_param_schema cm p = Inr m))"
proof (induction ps arbitrary: pars)
  case Nil
  then show ?case by simp
next
  case (Cons np ps)
  obtain n' p' where np: "np = (n', p')" by (cases np)
  have a: "signature_parameters cm pe req ((n', p') # ps) = Inr pars"
    using Cons.prems(1) np by simp
  from signature_parameters_Cons_Inr [OF a] obtain t fb pars' where
    h: "s_type p' = Some (TypeName t)" "map_of fallback_values t = Some fb"
       "t = ''object'' \<longrightarrow> (\<exists>m. pydantic_model_from_param_schema cm p' = Inr m)"
    and rest: "signature_parameters cm pe req ps = Inr pars'"
    by blast
  show ?case
  proof (cases "(n, p) = np")
    case True
    then show ?thesis using h np by auto
  next
    case False
    then have "(n, p) \<in> set ps" using Cons.prems(2) by simp
    from Cons.IH [OF rest this] show ?thesis .
  qed
qed

lemma unsupported_leaf_signature_fails:
  assumes "unsupported_leaf_in s"
  shows "get_signature_format_from_schema_params cm pe s \<noteq> Inr pars"
proof
  assume ok: "get_signature_format_from_schema_params cm pe s = Inr pars"
  from assms show False
  proof (cases rule: unsupported_leaf_in.cases)
    case (direct props n p tv)
    from ok direct(1) obtain req where "signature_parameters cm pe req props = Inr pars"
      by (auto simp: get_signature_format_from_schema_params_def)
    from signature_parameters_Inr_member [OF this direct(2)] obtain t' fb where
      "s_type p = Some (TypeName t')" "map_of fallback_values t' = Some fb" by blast
    with direct(3,4) supported_not_unsupported [of t' fb] show False by simp
  next
    case (nested props n p)
    from ok nested(1) obtain req where "signature_parameters cm pe req props = Inr pars"
      by (auto simp: get_signature_format_from_schema_params_def)
    from signature_parameters_Inr_member [OF this nested(2)] nested(3) obtain m' where
      "pydantic_model_from_param_schema cm p = Inr m'" by auto
    with unsupported_leaf_fails [OF nested(4), of cm m'] show False by simp
  qed
qed

lemma signature_parameters_not_unsupported:
  "signature_parameters cm pe req ps \<noteq> Inl (UnsupportedSchemaType path)"
proof (induction ps)
  case Nil
  then show ?case by simp
next
  case (Cons np ps)
  obtain n p where np: "np = (n, p)" by (cases np)
  show ?case
  proof (cases "s_type p")
    case None
    then show ?thesis by (simp add: np)
  next
    case tv: (Some tv)
    show ?thesis
    proof (cases tv)
      case (TypeNames names)
      with tv show ?thesis by (cases "s_title p") (simp_all add: np)
    next
      case (TypeName t)
      show ?thesis
      proof (cases "s_title p")
        case None
        with tv TypeName show ?thesis by (simp add: np)
      next
        case tt: (Some tt)
        have m: "pydantic_model_from_param_schema cm p \<noteq> Inl (UnsupportedSchemaType path)"
          by (rule synthesis_not_unsupported(1))
        define resolved where "resolved =
          (case map_of schema_type_python_type_dict t of
             Some pt \<Rightarrow> Inr pt
           | None \<Rightarrow> pydantic_model_from_param_schema cm p)"
        have m': "resolved \<noteq> Inl (UnsupportedSchemaType path)"
          using m by (cases "map_of schema_type_python_type_dict t") (simp_all add: resolved_def)
        show ?thesis
        proof (cases resolved)
          case (Inl e)
          have "signature_parameters cm pe req (np # ps) = Inl e"
            using Inl by (simp add: np tv TypeName tt resolved_def)
          with m' Inl show ?thesis by simp
        next
          case (Inr sty)
          show ?thesis
          proof (cases "map_of fallback_values t")
            case None
            have "signature_parameters cm pe req (np # ps) = Inl (KeyError t)"
              using Inr None by (simp add: np tv TypeName tt resolved_def)
            then show ?thesis by simp
          next
            case fb: (Some fb)
            define param where "param =
              \<lparr>par_name = n, par_type = sty,
               par_description =
                 (case s_description p of
                    Some d \<Rightarrow> d
                  | None \<Rightarrow> (case s_desc p of Some d \<Rightarrow> d | None \<Rightarrow> replace '' '' [] tt)),
               par_default =
                 (if n \<in> set req then None
                  else Some (case s_default p of None \<Rightarrow> fb | Some d \<Rightarrow> d))\<rparr>"
            have eq: "signature_parameters cm pe req (np # ps) =
                (case pe param of
                   Some r \<Rightarrow> Inl (library_exn r)
                 | None \<Rightarrow>
                     (case signature_parameters cm pe req ps of
                        Inl e \<Rightarrow> Inl e
                      | Inr parameters \<Rightarrow> Inr (param # parameters)))"
              using Inr fb unfolding param_def
              by (simp add: np tv TypeName tt resolved_def Let_def)
            show ?thesis
            proof (cases "pe param")
              case None
              with eq Cons.IH show ?thesis
                by (cases "signature_parameters cm pe req ps") simp_all
            next
              case r: (Some r)
              with eq library_exn_not_unsupported [of r path] show ?thesis by simp
            qed
          qed
        qed
      qed
    qed
  qed
qed

text \<open>
  C5 (as the code has it). Neither \<open>pydantic_model_from_param_schema\<close> nor
  \<open>get_signature_format_from_schema_params\<close> ever fails with
  \<open>UnsupportedSchemaType\<close>. On a schema with a property whose type is neither
  primitive nor \<open>object\<close> each of them fails, with whatever exception is raised
  first. When that property is the first one the loop of the synthesis comes to, the
  exception is the \<open>KeyError\<close> of the lookup \<open>fallback_values[prop_type]\<close>, which
  carries the type's name and no property path, and a \<open>TypeError\<close> when the type is a
  list.
\<close>

theorem unsupported_type_fails_unhandled:
  "pydantic_model_from_param_schema cm s \<noteq> Inl (UnsupportedSchemaType path)
   \<and> get_signature_format_from_schema_params cm pe s \<noteq> Inl (UnsupportedSchemaType path)
   \<and> (unsupported_leaf_in s \<longrightarrow>
        (\<exists>e. pydantic_model_from_param_schema cm s = Inl e)
        \<and> (\<exists>e. get_signature_format_from_schema_params cm pe s = Inl e))
   \<and> (\<forall>n p rest tn.
        s_title s \<noteq> None \<and> s_properties s = Some ((n, p) # rest) \<and> s_title p \<noteq> None
        \<and> s_type p = Some (TypeName tn) \<and> map_of fallback_values tn = None \<longrightarrow>
          pydantic_model_from_param_schema cm s = Inl (KeyError tn))
   \<and> (\<forall>n p rest names.
        s_title s \<noteq> None \<and> s_properties s = Some ((n, p) # rest) \<and> s_title p \<noteq> None
        \<and> s_type p = Some (TypeNames names) \<longrightarrow>
          pydantic_model_from_param_schema cm s
            = Inl (TypeError (''unhashable type: '' @ [CHR 0x27] @ ''list'' @ [CHR 0x27])))"
proof (intro conjI impI allI)
  show "pydantic_model_from_param_schema cm s \<noteq> Inl (UnsupportedSchemaType path)"
    by (rule synthesis_not_unsupported(1))
next
  show "get_signature_format_from_schema_params cm pe s \<noteq> Inl (UnsupportedSchemaType path)"
    using signature_parameters_not_unsupported
    by (auto simp: get_signature_format_from_schema_params_def split: option.splits)
next
  assume "unsupported_leaf_in s"
  from unsupported_leaf_fails [OF this]
  show "\<exists>e. pydantic_model_from_param_schema cm s = Inl e"
    by (cases "pydantic_model_from_param_schema cm s") auto
next
  assume "unsupported_leaf_in s"
  from unsupported_leaf_signature_fails [OF this]
  show "\<exists>e. get_signature_format_from_schema_params cm pe s = Inl e"
    by (cases "get_signature_format_from_schema_params cm pe s") auto
next
  fix n p rest tn
  assume a: "s_title s \<noteq> None \<and> s_properties s = Some ((n, p) # rest) \<and> s_title p \<noteq> None
        \<and> s_type p = Some (TypeName tn) \<and> map_of fallback_values tn = None"
  then obtain t tp where "s_title s = Some t" "s_title p = Some tp" by auto
  with a show "pydantic_model_from_param_schema cm s = Inl (KeyError tn)"
    by (cases s) simp
next
  fix n p rest names
  assume a: "s_title s \<noteq> None \<and> s_properties s = Some ((n, p) # rest) \<and> s_title p \<noteq> None
        \<and> s_type p = Some (TypeNames names)"
  then obtain t tp where "s_title s = Some t" "s_title p = Some tp" by auto
  with a show "pydantic_model_from_param_schema cm s
            = Inl (TypeError (''unhashable type: '' @ [CHR 0x27] @ ''list'' @ [CHR 0x27]))"
    by (cases s) simp
qed

subsection \<open>Syntheses of the sample schemas\<close>





text \<open>
  C5 as stated fails: on a property of type \<open>integer\<close> the lookup
  \<open>fallback_values[prop_type]\<close> raises \<open>KeyError\<close>, and nothing catches it. In
  \<open>get_signature_format_from_schema_params\<close> the property is first taken for an
  object, and the lookup of its \<open>properties\<close> raises.
\<close>

theorem integer_schema_counterexample:
  "pydantic_model_from_param_schema sample_create_model integer_schema
     = Inl (KeyError ''integer'')
   \<and> get_signature_format_from_schema_params sample_create_model sample_Parameter
       integer_schema = Inl (KeyError ''properties'')"
  by (simp add: integer_schema_def integer_leaf_def fallback_values_def
        schema_type_python_type_dict_def get_signature_format_from_schema_params_def)

theorem unsupported_type_fails_unhandled_witness:
  "(\<exists>e. pydantic_model_from_param_schema sample_create_model nested_integer_schema = Inl e)
   \<and> (\<exists>e. get_signature_format_from_schema_params sample_create_model sample_Parameter
            nested_integer_schema = Inl e)
   \<and> pydantic_model_from_param_schema sample_create_model integer_schema
       = Inl (KeyError ''integer'')
   \<and> pydantic_model_from_param_schema sample_create_model union_schema
       = Inl (TypeError (''unhashable type: '' @ [CHR 0x27] @ ''list'' @ [CHR 0x27]))"
proof -
  have "unsupported_leaf_in integer_schema"
    by (rule unsupported_leaf_in.direct
          [of _ "[(''line_number'', integer_leaf)]" "''line_number''" integer_leaf
              "TypeName ''integer''"])
       (simp_all add: integer_schema_def integer_leaf_def schema_type_python_type_dict_def
          unsupported_type_def)
  then have "unsupported_leaf_in nested_integer_schema"
    by (rule unsupported_leaf_in.nested
          [rotated 3, of _ _ "[(''inner'', integer_schema)]" "''inner''"])
       (simp_all add: nested_integer_schema_def integer_schema_def)
  with unsupported_type_fails_unhandled
         [of sample_create_model nested_integer_schema "[]" sample_Parameter]
  have 1: "(\<exists>e. pydantic_model_from_param_schema sample_create_model nested_integer_schema
                  = Inl e)
           \<and> (\<exists>e. get_signature_format_from_schema_params sample_create_model sample_Parameter
                    nested_integer_schema = Inl e)"
    by simp
  have i: "s_title integer_schema \<noteq> None
           \<and> s_properties integer_schema = Some ((''line_number'', integer_leaf) # [])
           \<and> s_title integer_leaf \<noteq> None \<and> s_type integer_leaf = Some (TypeName ''integer'')
           \<and> map_of fallback_values ''integer'' = None"
    by (simp add: integer_schema_def integer_leaf_def fallback_values_def)
  with unsupported_type_fails_unhandled
         [of sample_create_model integer_schema "[]" sample_Parameter]
  have 2: "pydantic_model_from_param_schema sample_create_model integer_schema
             = Inl (KeyError ''integer'')"
    by blast
  define leaf where "leaf = Schema (Some ''LineNumber'') (Some (TypeNames [''number'', ''null'']))
                              None None None None None"
  have u: "s_title union_schema \<noteq> None
           \<and> s_properties union_schema = Some ((''line_number'', leaf) # [])
           \<and> s_title leaf \<noteq> None \<and> s_type leaf = Some (TypeNames [''number'', ''null''])"
    by (simp add: union_schema_def leaf_def)
  with unsupported_type_fails_unhandled
         [of sample_create_model union_schema "[]" sample_Parameter]
  have 3: "pydantic_model_from_param_schema sample_create_model union_schema
             = Inl (TypeError (''unhashable type: '' @ [CHR 0x27] @ ''list'' @ [CHR 0x27]))"
    by blast
  from 1 2 3 show ?thesis by simp
qed

end
